theory Spec2Isabelle
  imports Complex_Main
begin

section \<open>JavaScript numbers\<close>

text \<open>
  The server (Express handler, \<^verbatim>\<open>processPersonImage\<close>, \<^verbatim>\<open>getStatus\<close>) is JavaScript.
  A JavaScript number is a finite double, \<^verbatim>\<open>NaN\<close> or an infinity. Finite doubles are
  embedded in the reals (\<open>Num\<close>); the comparisons and \<^verbatim>\<open>Math.round\<close> used by the code are
  exact on doubles, so they are the real-number operations. A field that is absent
  (\<^verbatim>\<open>undefined\<close>) reaches \<^verbatim>\<open>Math.round\<close> as \<open>NaN\<close>.
\<close>

datatype jsnum = NaN | Num real | PosInf | NegInf

text \<open>\<^verbatim>\<open>a < b\<close> on numbers: false as soon as one side is \<^verbatim>\<open>NaN\<close>.\<close>

fun js_less :: "jsnum \<Rightarrow> jsnum \<Rightarrow> bool" where
  "js_less NaN b = False"
| "js_less a NaN = False"
| "js_less (Num x) (Num y) = (x < y)"
| "js_less (Num x) PosInf = True"
| "js_less (Num x) NegInf = False"
| "js_less PosInf b = False"
| "js_less NegInf NegInf = False"
| "js_less NegInf b = True"

text \<open>\<^verbatim>\<open>a > b\<close> and \<^verbatim>\<open>a >= b\<close>.\<close>

definition js_greater :: "jsnum \<Rightarrow> jsnum \<Rightarrow> bool" where
  "js_greater a b = js_less b a"

definition js_ge :: "jsnum \<Rightarrow> jsnum \<Rightarrow> bool" where
  "js_ge a b = (a \<noteq> NaN \<and> b \<noteq> NaN \<and> \<not> js_less a b)"

text \<open>\<^verbatim>\<open>Math.round\<close>: the nearest integer, a tie going up.\<close>

fun Math_round :: "jsnum \<Rightarrow> jsnum" where
  "Math_round (Num x) = Num (of_int \<lfloor>x + 1 / 2\<rfloor>)"
| "Math_round n = n"

text \<open>Truthiness of a number, as \<^verbatim>\<open>||\<close> and \<^verbatim>\<open>?:\<close> test it: \<^verbatim>\<open>NaN\<close> and zero are falsy.\<close>

fun truthy :: "jsnum \<Rightarrow> bool" where
  "truthy NaN = False"
| "truthy (Num x) = (x \<noteq> 0)"
| "truthy n = True"

section \<open>Double arithmetic\<close>

text \<open>
  The product of two numbers is the double nearest to the exact product, a tie going to
  the even mantissa (IEEE 754 binary64). \<open>binexp\<close> is the binary exponent of a
  positive number, found by halving or doubling; a double has 53 significant bits above
  \<open>2^-1022\<close> and the spacing \<open>2^-1074\<close> below. \<open>fl\<close> rounds a real to the nearest
  double. Numbers whose magnitude reaches \<open>2^1024\<close> are infinite
  in JavaScript: \<open>toDouble\<close> gives the infinity, and \<open>js_times\<close> is the product for
  operands whose product stays below that bound, as coordinates (ratios of the image
  size) times image dimensions do. An operand written as a decimal stands for the double
  it denotes.
\<close>

fun binexp :: "nat \<Rightarrow> real \<Rightarrow> int" where
  "binexp 0 x = 0"
| "binexp (Suc n) x =
     (if 2 \<le> x then binexp n (x / 2) + 1
      else if x < 1 then binexp n (2 * x) - 1
      else 0)"

definition pow2 :: "int \<Rightarrow> real" where
  "pow2 e = (if 0 \<le> e then 2 ^ nat e else 1 / 2 ^ nat (- e))"

definition roundTiesToEven :: "real \<Rightarrow> int" where
  "roundTiesToEven m =
     (let n = \<lfloor>m\<rfloor>; d = m - of_int n
      in if d < 1 / 2 then n else if 1 / 2 < d then n + 1 else if even n then n else n + 1)"

definition fl :: "real \<Rightarrow> real" where
  "fl x = (let e = max (binexp 1100 \<bar>x\<bar>) (- 1022) - 52
           in of_int (roundTiesToEven (x / pow2 e)) * pow2 e)"

definition toDouble :: "real \<Rightarrow> jsnum" where
  "toDouble x =
     (if 2 ^ 1024 - 2 ^ 970 \<le> \<bar>x\<bar> then (if 0 < x then PosInf else NegInf)
      else Num (fl x))"

text \<open>\<^verbatim>\<open>x * y\<close> on two finite numbers.\<close>

definition js_times :: "real \<Rightarrow> real \<Rightarrow> real" where
  "js_times x y = fl (fl x * fl y)"

section \<open>Status classification (processPersonImage, lines 120-127)\<close>

datatype DetectionStatus = Detected | NotDetected | Indeterminate | NotSupported

text \<open>
  \<^verbatim>\<open>const confidence = Math.round(equipment.Confidence);
  let status = "Not Detected";
  if (confidence >= confidenceThreshold) status = "Detected";
  else if (confidence > 0) status = "Indeterminate";\<close>
\<close>

definition detectionStatus :: "jsnum \<Rightarrow> jsnum \<Rightarrow> DetectionStatus" where
  "detectionStatus Confidence confidenceThreshold =
     (let confidence = Math_round Confidence in
      if js_ge confidence confidenceThreshold then Detected
      else if js_greater confidence (Num 0) then Indeterminate
      else NotDetected)"

section \<open>The detection service's response (Amazon Rekognition, DetectProtectiveEquipment)\<close>

text \<open>
  The fields the server reads. Coordinates of a bounding box are ratios of the image
  size. A detection may come without a box (\<^verbatim>\<open>if (equipment.BoundingBox)\<close>) and a person
  without body parts (\<^verbatim>\<open>person.BodyParts || []\<close>). The handler reads
  \<^verbatim>\<open>p.EquipmentDetections\<close>, \<^verbatim>\<open>person.BoundingBox\<close> and \<^verbatim>\<open>person.Id\<close> unguarded: they
  are the array, the box and the number the service always sends.
\<close>

record BoundingBox =
  Left :: real
  Top :: real
  Width :: real
  Height :: real

record EquipmentDetection =
  eq_Type :: string
  eq_Confidence :: jsnum
  eq_BoundingBox :: "BoundingBox option"

record BodyPart =
  part_Name :: string
  part_Confidence :: jsnum
  part_EquipmentDetections :: "EquipmentDetection list"

record Person =
  person_Id :: nat
  person_Confidence :: jsnum
  person_BoundingBox :: BoundingBox
  person_BodyParts :: "BodyPart list option"

text \<open>\<^verbatim>\<open>sharp(imagePath).metadata()\<close>: the fields the server uses.\<close>

record imageMetadata =
  md_width :: int
  md_height :: int
  md_format :: string

section \<open>Geometry (processPersonImage, lines 97-100 and 132-135)\<close>

text \<open>
  The crop region of a person:
  \<^verbatim>\<open>cropX = Math.floor(person.BoundingBox.Left * imgWidth)\<close>, and the same for
  \<^verbatim>\<open>cropY\<close>, \<^verbatim>\<open>cropWidth\<close>, \<^verbatim>\<open>cropHeight\<close>. The floor is taken of the product as a
  double; an image dimension is an integer, which is a double as it stands.
\<close>

record CropRegion =
  cropX :: int
  cropY :: int
  cropWidth :: int
  cropHeight :: int

definition cropRegion :: "BoundingBox \<Rightarrow> int \<Rightarrow> int \<Rightarrow> CropRegion" where
  "cropRegion box imgWidth imgHeight =
     \<lparr>cropX = \<lfloor>js_times (Left box) (of_int imgWidth)\<rfloor>,
      cropY = \<lfloor>js_times (Top box) (of_int imgHeight)\<rfloor>,
      cropWidth = \<lfloor>js_times (Width box) (of_int imgWidth)\<rfloor>,
      cropHeight = \<lfloor>js_times (Height box) (of_int imgHeight)\<rfloor>\<rparr>"

text \<open>
  The rectangle drawn for an equipment detection:
  \<^verbatim>\<open>eqX = equipment.BoundingBox.Left * imgWidth\<close>, and the same for \<^verbatim>\<open>eqY\<close>,
  \<^verbatim>\<open>eqWidth\<close>, \<^verbatim>\<open>eqHeight\<close>; the canvas takes fractional coordinates.
\<close>

record EquipmentRect =
  eqX :: real
  eqY :: real
  eqWidth :: real
  eqHeight :: real

definition equipmentRect :: "BoundingBox \<Rightarrow> int \<Rightarrow> int \<Rightarrow> EquipmentRect" where
  "equipmentRect box imgWidth imgHeight =
     \<lparr>eqX = js_times (Left box) (of_int imgWidth),
      eqY = js_times (Top box) (of_int imgHeight),
      eqWidth = js_times (Width box) (of_int imgWidth),
      eqHeight = js_times (Height box) (of_int imgHeight)\<rparr>"

text \<open>
  The rectangle as the specification words it (section 4.1): floor for the origin, direct
  scaling for width and height. It is compared with the two rectangles of the code.
\<close>

definition absoluteRect_spec :: "BoundingBox \<Rightarrow> int \<Rightarrow> int \<Rightarrow> EquipmentRect" where
  "absoluteRect_spec box imgWidth imgHeight =
     \<lparr>eqX = of_int \<lfloor>js_times (Left box) (of_int imgWidth)\<rfloor>,
      eqY = of_int \<lfloor>js_times (Top box) (of_int imgHeight)\<rfloor>,
      eqWidth = js_times (Width box) (of_int imgWidth),
      eqHeight = js_times (Height box) (of_int imgHeight)\<rparr>"

section \<open>Annotation (processPersonImage, lines 111-151)\<close>

text \<open>
  One \<^verbatim>\<open>fillRect\<close>/\<^verbatim>\<open>strokeRect\<close> pair per detection that has a box and whose status is
  Detected (green) or Indeterminate (yellow), body parts and detections in their order.
\<close>

record Annotation =
  ann_rect :: EquipmentRect
  ann_color :: string

definition drawEquipment ::
  "int \<Rightarrow> int \<Rightarrow> jsnum \<Rightarrow> EquipmentDetection \<Rightarrow> Annotation list" where
  "drawEquipment imgWidth imgHeight confidenceThreshold equipment =
     (case eq_BoundingBox equipment of
        None \<Rightarrow> []
      | Some box \<Rightarrow>
          (let status = detectionStatus (eq_Confidence equipment) confidenceThreshold in
           if status = Detected \<or> status = Indeterminate then
             [\<lparr>ann_rect = equipmentRect box imgWidth imgHeight,
               ann_color = (if status = Detected then ''#00FF00'' else ''#FFFF00'')\<rparr>]
           else []))"

definition drawPerson :: "int \<Rightarrow> int \<Rightarrow> jsnum \<Rightarrow> Person \<Rightarrow> Annotation list" where
  "drawPerson imgWidth imgHeight confidenceThreshold person =
     (case person_BodyParts person of
        None \<Rightarrow> []
      | Some bodyParts \<Rightarrow>
          concat (map (\<lambda>bodyPart.
                    concat (map (drawEquipment imgWidth imgHeight confidenceThreshold)
                              (part_EquipmentDetections bodyPart)))
                  bodyParts))"

section \<open>Result assembly (the handler of /api/detect, lines 236-251)\<close>

record PPEItem =
  status :: DetectionStatus
  confidence :: jsnum

text \<open>
  \<^verbatim>\<open>const part = bodyParts.find((p) => p.EquipmentDetections.some((eq) => eq.Type === type));
  const detection = part && part.EquipmentDetections.find((eq) => eq.Type === type);
  return detection
    ? { status: "Detected", confidence: Math.round(detection.Confidence) }
    : { status: "Not Detected", confidence: part ? Math.round(part.Confidence) : 0 };\<close>
\<close>

definition getStatus :: "BodyPart list \<Rightarrow> string \<Rightarrow> PPEItem" where
  "getStatus bodyParts type =
     (let part = find (\<lambda>p. list_ex (\<lambda>eq. eq_Type eq = type) (part_EquipmentDetections p))
                   bodyParts;
          detection = (case part of
                         None \<Rightarrow> None
                       | Some p \<Rightarrow> find (\<lambda>eq. eq_Type eq = type) (part_EquipmentDetections p))
      in case detection of
           Some d \<Rightarrow> \<lparr>status = Detected, confidence = Math_round (eq_Confidence d)\<rparr>
         | None \<Rightarrow>
             \<lparr>status = NotDetected,
              confidence = (case part of
                              Some p \<Rightarrow> Math_round (part_Confidence p)
                            | None \<Rightarrow> Num 0)\<rparr>)"

section \<open>Strings\<close>

text \<open>A non-negative integer in a template literal or under \<^verbatim>\<open>toString()\<close>: its decimal digits.\<close>

fun toString :: "nat \<Rightarrow> string" where
  "toString n =
     (if n < 10 then [char_of (48 + n)]
      else toString (n div 10) @ [char_of (48 + n mod 10)])"

fun strip_prefix :: "string \<Rightarrow> string \<Rightarrow> string option" where
  "strip_prefix [] s = Some s"
| "strip_prefix (c # cs) [] = None"
| "strip_prefix (c # cs) (d # ds) = (if c = d then strip_prefix cs ds else None)"

section \<open>The file system\<close>

text \<open>
  The files the server touches, as an association list from path to modification time
  (milliseconds); the list stands for the map \<open>map_of fs\<close>. \<^verbatim>\<open>fs.unlinkSync\<close> and
  \<^verbatim>\<open>fs.statSync\<close> throw on a missing file. The directories \<^verbatim>\<open>uploads\<close> and
  \<^verbatim>\<open>processed-images\<close> exist from start-up (lines 19-25).
\<close>

type_synonym fs = "(string \<times> int) list"

datatype Exception = ENOENT | TypeError | ProcessingError

definition existsSync :: "string \<Rightarrow> fs \<Rightarrow> bool" where
  "existsSync filePath files = (map_of files filePath \<noteq> None)"

definition unlinkSync :: "string \<Rightarrow> fs \<Rightarrow> Exception + fs" where
  "unlinkSync filePath files =
     (if existsSync filePath files then Inr (filter (\<lambda>e. fst e \<noteq> filePath) files)
      else Inl ENOENT)"

definition statSync :: "string \<Rightarrow> fs \<Rightarrow> Exception + int" where
  "statSync filePath files =
     (case map_of files filePath of None \<Rightarrow> Inl ENOENT | Some mtime \<Rightarrow> Inr mtime)"

definition writeFileSync :: "string \<Rightarrow> int \<Rightarrow> fs \<Rightarrow> fs" where
  "writeFileSync filePath now files = (filePath, now) # filter (\<lambda>e. fst e \<noteq> filePath) files"

definition path_join :: "string \<Rightarrow> string \<Rightarrow> string" where
  "path_join dir file = dir @ ''/'' @ file"

text \<open>\<^verbatim>\<open>fs.readdirSync(dir)\<close>: the names under the directory, each once.\<close>

definition readdirSync :: "string \<Rightarrow> fs \<Rightarrow> string list" where
  "readdirSync dir files =
     remdups (List.map_filter (\<lambda>e. strip_prefix (dir @ ''/'') (fst e)) files)"

definition processedImagesDir :: string where
  "processedImagesDir = ''processed-images''"

text \<open>\<^verbatim>\<open>process.env.SERVER_URL\<close> is taken as unset: the URL is the default of line 16.\<close>

definition serverUrl :: string where
  "serverUrl = ''https://detection.gulfconsulting.com.au''"

section \<open>Artifact cleanup (cleanupFiles, lines 49-60; the periodic sweep, lines 352-375)\<close>

text \<open>
  Both return the new file system and the paths for which the \<^verbatim>\<open>catch\<close> block logged an
  error with \<^verbatim>\<open>console.error\<close>; neither lets an exception out.
\<close>

fun cleanupFiles :: "string list \<Rightarrow> fs \<Rightarrow> fs \<times> string list" where
  "cleanupFiles [] files = (files, [])"
| "cleanupFiles (filePath # filePaths) files =
     (if existsSync filePath files then
        (case unlinkSync filePath files of
           Inr files' \<Rightarrow> cleanupFiles filePaths files'
         | Inl e \<Rightarrow> (let (files', errors) = cleanupFiles filePaths files
                    in (files', filePath # errors)))
      else cleanupFiles filePaths files)"

text \<open>
  One step of the sweep's \<^verbatim>\<open>forEach\<close>:
  \<^verbatim>\<open>const stats = fs.statSync(filePath);
  if (now - stats.mtime.getTime() > 120000) fs.unlinkSync(filePath);\<close>
\<close>

definition sweepFile :: "int \<Rightarrow> string \<Rightarrow> fs \<Rightarrow> fs \<times> string list" where
  "sweepFile now file files =
     (let filePath = path_join processedImagesDir file in
      case statSync filePath files of
        Inl e \<Rightarrow> (files, [filePath])
      | Inr mtime \<Rightarrow>
          if now - mtime > 120000 then
            (case unlinkSync filePath files of
               Inr files' \<Rightarrow> (files', [])
             | Inl e \<Rightarrow> (files, [filePath]))
          else (files, []))"

fun sweepFiles :: "int \<Rightarrow> string list \<Rightarrow> fs \<Rightarrow> fs \<times> string list" where
  "sweepFiles now [] files = (files, [])"
| "sweepFiles now (file # rest) files =
     (let (files', errors) = sweepFile now file files;
          (files'', errors') = sweepFiles now rest files'
      in (files'', errors @ errors'))"

definition periodicCleanup :: "int \<Rightarrow> fs \<Rightarrow> fs \<times> string list" where
  "periodicCleanup now files = sweepFiles now (readdirSync processedImagesDir files) files"

section \<open>The confidence threshold of a request (line 213)\<close>

text \<open>
  \<^verbatim>\<open>parseFloat\<close> (ECMAScript): the argument is converted to a string (\<^verbatim>\<open>undefined\<close> gives
  \<^verbatim>\<open>"undefined"\<close>), leading white space is dropped, and the longest prefix that is a
  decimal literal (sign, \<^verbatim>\<open>Infinity\<close>, digits, fraction, exponent) gives the value;
  \<^verbatim>\<open>NaN\<close> when there is none. The value is the double nearest to the decimal value
  (\<open>toDouble\<close>); white space is the ASCII white space.
\<close>

definition isDigit :: "char \<Rightarrow> bool" where
  "isDigit c = (c \<in> set ''0123456789'')"

definition isWhiteSpace :: "char \<Rightarrow> bool" where
  "isWhiteSpace c = (of_char c \<in> {9, 10, 11, 12, 13, 32 :: nat})"

definition digitsValue :: "string \<Rightarrow> nat" where
  "digitsValue ds = foldl (\<lambda>acc c. 10 * acc + (of_char c - 48)) 0 ds"

definition scale10 :: "real \<Rightarrow> int \<Rightarrow> real" where
  "scale10 x e = (if 0 \<le> e then x * 10 ^ nat e else x / 10 ^ nat (- e))"

text \<open>The exponent part of a literal, if the rest of the string starts with one.\<close>

definition exponentPart :: "string \<Rightarrow> int" where
  "exponentPart s =
     (case s of
        [] \<Rightarrow> 0
      | c # r \<Rightarrow>
          if c = CHR ''e'' \<or> c = CHR ''E'' then
            (case r of
               [] \<Rightarrow> 0
             | d # r' \<Rightarrow>
                 if d = CHR ''-'' then
                   (if takeWhile isDigit r' = [] then 0
                    else - int (digitsValue (takeWhile isDigit r')))
                 else if d = CHR ''+'' then int (digitsValue (takeWhile isDigit r'))
                 else int (digitsValue (takeWhile isDigit r)))
          else 0)"

definition unsignedLiteral :: "string \<Rightarrow> jsnum" where
  "unsignedLiteral s =
     (if strip_prefix ''Infinity'' s \<noteq> None then PosInf
      else
        (let ip = takeWhile isDigit s;
             s2 = dropWhile isDigit s;
             hasDot = (s2 \<noteq> [] \<and> hd s2 = CHR ''.'');
             fp = (if hasDot then takeWhile isDigit (tl s2) else []);
             s3 = (if hasDot then dropWhile isDigit (tl s2) else s2)
         in if ip = [] \<and> fp = [] then NaN
            else toDouble (scale10 (real (digitsValue ip)
                                       + real (digitsValue fp) / 10 ^ length fp)
                             (exponentPart s3))))"

definition negate :: "jsnum \<Rightarrow> jsnum" where
  "negate n = (case n of NaN \<Rightarrow> NaN | Num x \<Rightarrow> Num (- x) | PosInf \<Rightarrow> NegInf | NegInf \<Rightarrow> PosInf)"

definition parseFloat :: "string option \<Rightarrow> jsnum" where
  "parseFloat arg =
     (let inputString = (case arg of None \<Rightarrow> ''undefined'' | Some s \<Rightarrow> s);
          trimmed = dropWhile isWhiteSpace inputString
      in case trimmed of
           [] \<Rightarrow> NaN
         | c # r \<Rightarrow>
             if c = CHR ''-'' then negate (unsignedLiteral r)
             else if c = CHR ''+'' then unsignedLiteral r
             else unsignedLiteral trimmed)"

text \<open>
  \<^verbatim>\<open>const confidenceThreshold = parseFloat(req.body.confidenceThreshold) || 80;\<close>
  The body of a multipart request is the object of its text fields.
\<close>

definition confidenceThreshold :: "(string \<rightharpoonup> string) \<Rightarrow> jsnum" where
  "confidenceThreshold body =
     (let parsed = parseFloat (body ''confidenceThreshold'')
      in if truthy parsed then parsed else Num 80)"

section \<open>The collaborators of a request\<close>

text \<open>
  What the handler gets from outside the repository, as parameters: the result of
  \<^verbatim>\<open>sharp(imagePath).metadata()\<close> (\<open>None\<close>: the promise rejects, as for a file that is
  no image), the answer of \<^verbatim>\<open>rekognitionClient.send\<close> for a minimum confidence (\<open>Inl\<close>:
  it rejects with that message; \<open>Inr\<close>: the \<^verbatim>\<open>Persons\<close> field of the answer), whether the
  canvas steps (\<^verbatim>\<open>createCanvas\<close>, \<^verbatim>\<open>loadImage\<close>, \<^verbatim>\<open>drawImage\<close>), the extraction of a
  region from the painted image (\<^verbatim>\<open>sharp(...).extract(region).png().toBuffer()\<close>) and
  \<^verbatim>\<open>fs.writeFileSync\<close> succeed,
  the identifier \<^verbatim>\<open>uuidv4()\<close> drawn for the person at an index, the clock, and the order
  in which the per-person tasks of \<^verbatim>\<open>Promise.all\<close> complete.
\<close>

record Env =
  env_metadata :: "string \<Rightarrow> imageMetadata option"
  env_rekognition :: "jsnum \<Rightarrow> string + Person list option"
  env_loadImage :: "string \<Rightarrow> bool"
  env_extract :: "imageMetadata \<Rightarrow> Annotation list \<Rightarrow> CropRegion \<Rightarrow> bool"
  env_writeFile :: "string \<Rightarrow> bool"
  env_uuidv4 :: "nat \<Rightarrow> string"
  env_now :: int
  env_completion :: "nat list"

text \<open>
  The extraction as sharp documents it: the region has a positive width and height, a
  non-negative origin, and lies inside the image. Used where a concrete collaborator is
  needed.
\<close>

definition sharp_extract :: "imageMetadata \<Rightarrow> Annotation list \<Rightarrow> CropRegion \<Rightarrow> bool" where
  "sharp_extract metadata annotations region =
     (0 \<le> cropX region \<and> 0 \<le> cropY region \<and> 0 < cropWidth region \<and> 0 < cropHeight region
      \<and> cropX region + cropWidth region \<le> md_width metadata
      \<and> cropY region + cropHeight region \<le> md_height metadata)"

section \<open>processPersonImage (lines 86-186)\<close>

text \<open>
  The body of the \<^verbatim>\<open>try\<close> block: \<open>Inr\<close> the name of the file to write,
  \<open>Inl\<close> when a step throws. The rectangles of \<open>drawPerson\<close> are painted on the full
  image between loading and extraction (painting does not throw), and the region of the
  person is extracted from the painted image.
\<close>

definition renderPerson ::
  "Env \<Rightarrow> nat \<Rightarrow> string \<Rightarrow> Person \<Rightarrow> imageMetadata \<Rightarrow> jsnum \<Rightarrow> Exception + string" where
  "renderPerson env idx originalImagePath person metadata threshold =
     (let imgWidth = md_width metadata;
          imgHeight = md_height metadata;
          crop = cropRegion (person_BoundingBox person) imgWidth imgHeight
      in if \<not> env_loadImage env originalImagePath then Inl ProcessingError
         else if \<not> env_extract env metadata (drawPerson imgWidth imgHeight threshold person) crop
         then Inl ProcessingError
         else
           (let fileName = ''person_'' @ toString (person_Id person) @ ''_''
                             @ env_uuidv4 env idx @ ''.png''
            in if \<not> env_writeFile env (path_join processedImagesDir fileName)
               then Inl ProcessingError
               else Inr fileName))"

definition placeholderUrl :: "Person \<Rightarrow> string" where
  "placeholderUrl person =
     serverUrl @ ''/placeholder.svg?height=120&width=120&text=Person+''
       @ toString (person_Id person)"

text \<open>
  The state a task works on: the array \<^verbatim>\<open>generatedFiles\<close> of the request and the file
  system. The result is the URL of the image.
\<close>

definition processPersonImage ::
  "Env \<Rightarrow> nat \<Rightarrow> string \<Rightarrow> Person \<Rightarrow> imageMetadata \<Rightarrow> jsnum \<Rightarrow> string list \<times> fs
     \<Rightarrow> string \<times> string list \<times> fs" where
  "processPersonImage env idx originalImagePath person metadata threshold st =
     (case renderPerson env idx originalImagePath person metadata threshold of
        Inl error \<Rightarrow> (placeholderUrl person, st)
      | Inr fileName \<Rightarrow>
          (let filePath = path_join processedImagesDir fileName
           in (serverUrl @ ''/processed-images/'' @ fileName,
               fst st @ [filePath],
               writeFileSync filePath (env_now env) (snd st))))"

section \<open>The handler of POST /api/detect (lines 209-321)\<close>

record PersonResult =
  personId :: nat
  personConfidence :: jsnum
  image :: string
  boundingBox :: BoundingBox
  hardHat :: PPEItem
  faceMask :: PPEItem
  handProtectionL :: PPEItem
  handProtectionR :: PPEItem
  safetyVest :: PPEItem
  boots :: PPEItem

text \<open>
  The object a per-person task returns (lines 262-280); \<open>boundingBox\<close> holds
  \<^verbatim>\<open>x\<close>, \<^verbatim>\<open>y\<close>, \<^verbatim>\<open>width\<close>, \<^verbatim>\<open>height\<close> as the box of the person.
\<close>

definition personResult :: "Person \<Rightarrow> nat \<Rightarrow> string \<Rightarrow> PersonResult" where
  "personResult person idx processedImageUrl =
     (let bodyParts = (case person_BodyParts person of None \<Rightarrow> [] | Some parts \<Rightarrow> parts)
      in \<lparr>personId = idx + 1,
          personConfidence = Math_round (person_Confidence person),
          image = processedImageUrl,
          boundingBox = person_BoundingBox person,
          hardHat = getStatus bodyParts ''HEAD_COVER'',
          faceMask = getStatus bodyParts ''FACE_COVER'',
          handProtectionL = getStatus bodyParts ''HAND_COVER'',
          handProtectionR = getStatus bodyParts ''HAND_COVER'',
          safetyVest = \<lparr>status = NotSupported, confidence = Num 0\<rparr>,
          boots = \<lparr>status = NotSupported, confidence = Num 0\<rparr>\<rparr>)"

definition personTask ::
  "Env \<Rightarrow> string \<Rightarrow> imageMetadata \<Rightarrow> jsnum \<Rightarrow> Person \<Rightarrow> nat \<Rightarrow> string list \<times> fs
     \<Rightarrow> PersonResult \<times> string list \<times> fs" where
  "personTask env imagePath metadata threshold person idx st =
     (let (processedImageUrl, st') = processPersonImage env idx imagePath person metadata threshold st
      in (personResult person idx processedImageUrl, st'))"

text \<open>
  \<^verbatim>\<open>Promise.all(persons.map(async (person, idx) => ...))\<close>: a task writes its file and
  pushes on \<^verbatim>\<open>generatedFiles\<close> after its last \<^verbatim>\<open>await\<close>, so the effects happen in the
  order of completion; \<^verbatim>\<open>Promise.all\<close> stores the value of the task at index \<open>idx\<close> in
  slot \<open>idx\<close> and resolves once every slot is filled.
\<close>

fun runTasks ::
  "Env \<Rightarrow> string \<Rightarrow> imageMetadata \<Rightarrow> jsnum \<Rightarrow> Person list \<Rightarrow> nat list
     \<Rightarrow> PersonResult option list \<times> string list \<times> fs
     \<Rightarrow> PersonResult option list \<times> string list \<times> fs" where
  "runTasks env imagePath metadata threshold persons [] acc = acc"
| "runTasks env imagePath metadata threshold persons (idx # completion) (slots, st) =
     (if idx < length persons then
        (let (result, st') = personTask env imagePath metadata threshold (persons ! idx) idx st
         in runTasks env imagePath metadata threshold persons completion
              (slots[idx := Some result], st'))
      else runTasks env imagePath metadata threshold persons completion (slots, st))"

definition Promise_all ::
  "Env \<Rightarrow> string \<Rightarrow> imageMetadata \<Rightarrow> jsnum \<Rightarrow> Person list \<Rightarrow> string list \<times> fs
     \<Rightarrow> PersonResult list option \<times> string list \<times> fs" where
  "Promise_all env imagePath metadata threshold persons st =
     (let (slots, st') = runTasks env imagePath metadata threshold persons (env_completion env)
                           (replicate (length persons) None, st)
      in (those slots, st'))"

text \<open>A request as multer hands it to the handler: the stored upload and the text fields.\<close>

record UploadedFile =
  uf_path :: string
  uf_mimetype :: string
  uf_size :: nat

record Request =
  req_file :: "UploadedFile option"
  req_body :: "string \<rightharpoonup> string"

datatype Response =
  Success "PersonResult list" imageMetadata
| Failure nat string

text \<open>
  What a request leaves behind: the response (\<open>None\<close> while \<^verbatim>\<open>Promise.all\<close> is pending),
  the file system, the number of calls to the detection service, and the batch of files
  handed to the 60-second timer.
\<close>

record Outcome =
  response :: "Response option"
  files_after :: fs
  rekognitionCalls :: nat
  deferredCleanup :: "string list option"

text \<open>The outer \<^verbatim>\<open>catch\<close> (lines 313-320).\<close>

definition outerCatch :: "fs \<Rightarrow> nat \<Rightarrow> Outcome" where
  "outerCatch files calls =
     \<lparr>response = Some (Failure 500 ''Error processing image''),
      files_after = files, rekognitionCalls = calls, deferredCleanup = None\<rparr>"

text \<open>The inner \<^verbatim>\<open>catch\<close> (lines 304-312); its own \<^verbatim>\<open>unlinkSync\<close> may throw into the outer one.\<close>

definition innerCatch :: "string \<Rightarrow> fs \<Rightarrow> nat \<Rightarrow> Outcome" where
  "innerCatch imagePath files calls =
     (case unlinkSync imagePath files of
        Inl e \<Rightarrow> outerCatch files calls
      | Inr files' \<Rightarrow>
          \<lparr>response = Some (Failure 500 ''Failed to process image with AWS Rekognition''),
           files_after = files', rekognitionCalls = calls, deferredCleanup = None\<rparr>)"

definition detect :: "Env \<Rightarrow> Request \<Rightarrow> fs \<Rightarrow> Outcome" where
  "detect env req files =
     (case req_file req of
        None \<Rightarrow> outerCatch files 0
      | Some file \<Rightarrow>
          (let imagePath = uf_path file in
           if \<not> existsSync imagePath files then outerCatch files 0
           else
             (let threshold = confidenceThreshold (req_body req) in
              case env_metadata env imagePath of
                None \<Rightarrow> outerCatch files 0
              | Some metadata \<Rightarrow>
                  (case env_rekognition env threshold of
                     Inl message \<Rightarrow> innerCatch imagePath files 1
                   | Inr data \<Rightarrow>
                       (let persons = (case data of None \<Rightarrow> [] | Some ps \<Rightarrow> ps);
                            (results, generatedFiles, files') =
                              Promise_all env imagePath metadata threshold persons ([], files)
                        in case results of
                             None \<Rightarrow>
                               \<lparr>response = None, files_after = files',
                                rekognitionCalls = 1, deferredCleanup = None\<rparr>
                           | Some rs \<Rightarrow>
                               (case unlinkSync imagePath files' of
                                  Inl e \<Rightarrow> innerCatch imagePath files' 1
                                | Inr files'' \<Rightarrow>
                                    \<lparr>response = Some (Success rs metadata),
                                     files_after = files'', rekognitionCalls = 1,
                                     deferredCleanup = Some generatedFiles\<rparr>))))))"

section \<open>The client (ppe-detection-app.tsx and its API module)\<close>

record File =
  file_type :: string
  file_size :: nat

record Validation =
  valid :: bool
  error :: "string option"

definition validateImageFile :: "File \<Rightarrow> Validation" where
  "validateImageFile file =
     (let allowedTypes = [''image/jpeg'', ''image/jpg'', ''image/png''];
          maxSize = 10 * 1024 * 1024
      in if file_type file \<notin> set allowedTypes then
           \<lparr>valid = False,
            error = Some ''Invalid file type. Please upload a JPEG or PNG image.''\<rparr>
         else if file_size file > maxSize then
           \<lparr>valid = False,
            error = Some ''File too large. Please upload an image smaller than 10MB.''\<rparr>
         else \<lparr>valid = True, error = None\<rparr>)"

text \<open>
  \<^verbatim>\<open>createFormData\<close> for a \<^verbatim>\<open>File\<close>: the image and one text field,
  \<^verbatim>\<open>formData.append("confidence_threshold", confidenceThreshold.toString())\<close>.
\<close>

record FormData =
  fd_image :: File
  fd_fields :: "(string \<times> string) list"

definition createFormData :: "File \<Rightarrow> nat \<Rightarrow> FormData" where
  "createFormData imageFile threshold =
     \<lparr>fd_image = imageFile, fd_fields = [(''confidence_threshold'', toString threshold)]\<rparr>"

text \<open>\<^verbatim>\<open>upload.single("image")\<close>: the image stored under a path, the text fields as the body.\<close>

definition multer_single :: "string \<Rightarrow> FormData \<Rightarrow> Request" where
  "multer_single storedPath form =
     \<lparr>req_file = Some \<lparr>uf_path = storedPath, uf_mimetype = file_type (fd_image form),
                        uf_size = file_size (fd_image form)\<rparr>,
      req_body = map_of (fd_fields form)\<rparr>"

text \<open>
  \<^verbatim>\<open>processDetectionResults\<close>: a Detected item whose confidence is below the threshold
  becomes Indeterminate. A confidence that is no finite number arrives as \<^verbatim>\<open>null\<close> in the
  JSON, which \<^verbatim>\<open><\<close> compares as 0.
\<close>

definition fromJSON :: "jsnum \<Rightarrow> jsnum" where
  "fromJSON n = (case n of Num x \<Rightarrow> Num x | _ \<Rightarrow> Num 0)"

definition applyThreshold :: "jsnum \<Rightarrow> PPEItem \<Rightarrow> PPEItem" where
  "applyThreshold threshold item =
     (if js_less (fromJSON (confidence item)) threshold \<and> status item = Detected
      then item\<lparr>status := Indeterminate\<rparr> else item)"

definition processDetectionResults :: "PersonResult list \<Rightarrow> jsnum \<Rightarrow> PersonResult list" where
  "processDetectionResults results threshold =
     map (\<lambda>result.
            result\<lparr>hardHat := applyThreshold threshold (hardHat result),
                   faceMask := applyThreshold threshold (faceMask result),
                   handProtectionL := applyThreshold threshold (handProtectionL result),
                   handProtectionR := applyThreshold threshold (handProtectionR result)\<rparr>)
         results"

section \<open>The supported formats the server announces (GET /api/config, lines 324-331)\<close>

definition config_supported_formats :: "string list" where
  "config_supported_formats = [''image/jpeg'', ''image/jpg'', ''image/png'']"

section \<open>An example request\<close>

text \<open>
  A 1000 x 800 image with two persons. The first wears a head cover (confidence 90) and
  lies inside the image; the box of the second reaches beyond the right edge, so its
  extraction fails. The task of the second person completes before that of the first.
\<close>

definition example_metadata :: imageMetadata where
  "example_metadata = \<lparr>md_width = 1000, md_height = 800, md_format = ''jpeg''\<rparr>"

definition example_bodyParts :: "BodyPart list" where
  "example_bodyParts =
     [\<lparr>part_Name = ''HEAD'', part_Confidence = Num 99,
       part_EquipmentDetections =
         [\<lparr>eq_Type = ''HEAD_COVER'', eq_Confidence = Num 90,
           eq_BoundingBox =
             Some \<lparr>Left = 1 / 4, Top = 1 / 8, Width = 1 / 8, Height = 1 / 8\<rparr>\<rparr>]\<rparr>,
      \<lparr>part_Name = ''FACE'', part_Confidence = Num 98,
       part_EquipmentDetections = []\<rparr>]"

definition example_persons :: "Person list" where
  "example_persons =
     [\<lparr>person_Id = 0, person_Confidence = Num (399 / 4),
       person_BoundingBox = \<lparr>Left = 1 / 8, Top = 1 / 8, Width = 1 / 4, Height = 1 / 2\<rparr>,
       person_BodyParts = Some example_bodyParts\<rparr>,
      \<lparr>person_Id = 1, person_Confidence = Num 85,
       person_BoundingBox = \<lparr>Left = 1 / 2, Top = 1 / 2, Width = 1, Height = 1 / 4\<rparr>,
       person_BodyParts = None\<rparr>]"

definition example_env :: Env where
  "example_env =
     \<lparr>env_metadata = (\<lambda>p. Some example_metadata),
      env_rekognition = (\<lambda>t. Inr (Some example_persons)),
      env_loadImage = (\<lambda>p. True),
      env_extract = sharp_extract,
      env_writeFile = (\<lambda>p. True),
      env_uuidv4 = (\<lambda>i. ''uuid'' @ toString i),
      env_now = 1000000,
      env_completion = [1, 0]\<rparr>"

definition example_upload :: UploadedFile where
  "example_upload = \<lparr>uf_path = ''uploads/3f2a'', uf_mimetype = ''image/jpeg'', uf_size = 204800\<rparr>"

definition example_request :: Request where
  "example_request =
     \<lparr>req_file = Some example_upload,
      req_body = [''confidence_threshold'' \<mapsto> ''80'']\<rparr>"

definition example_files :: fs where
  "example_files = [(''uploads/3f2a'', 999000), (''processed-images/person_0_old.png'', 100)]"

section \<open>Evaluation of the decimal printer\<close>

declare toString.simps [simp del]

lemma toString_0: "toString 0 = ''0''"
  by code_simp

lemma toString_1: "toString 1 = ''1''"
  by code_simp

section \<open>Evaluation of the double arithmetic\<close>

lemma binexp_numeral:
  "binexp (numeral k) x =
     (if 2 \<le> x then binexp (pred_numeral k) (x / 2) + 1
      else if x < 1 then binexp (pred_numeral k) (2 * x) - 1
      else 0)"
  by (simp add: numeral_eq_Suc)

lemmas fl_eval = js_times_def fl_def binexp_numeral pow2_def roundTiesToEven_def Let_def

text \<open>
  The rounding is visible: 0.7 is the double \<open>6305039478318694 / 2^53\<close>, below 7/10, and
  its product with 1000 rounds to 700; 0.29 times 100 rounds to a double below 29.
\<close>

lemma fl_decimal:
  "fl (7 / 10) = 6305039478318694 / 2 ^ 53"
  "js_times (7 / 10) 1000 = 700"
  "\<lfloor>js_times (29 / 100) 100\<rfloor> = 28"
  by (simp_all add: fl_eval)

lemma example_cropRegion:
  "cropRegion \<lparr>Left = 1 / 8, Top = 1 / 8, Width = 1 / 4, Height = 1 / 2\<rparr> 1000 800
     = \<lparr>cropX = 125, cropY = 100, cropWidth = 250, cropHeight = 400\<rparr>"
  "cropRegion \<lparr>Left = 1 / 2, Top = 1 / 2, Width = 1, Height = 1 / 4\<rparr> 1000 800
     = \<lparr>cropX = 500, cropY = 400, cropWidth = 1000, cropHeight = 200\<rparr>"
  by (simp_all add: cropRegion_def fl_eval)

lemma example_equipmentRect:
  "equipmentRect \<lparr>Left = 1 / 4, Top = 1 / 8, Width = 1 / 8, Height = 1 / 8\<rparr> 1000 800
     = \<lparr>eqX = 250, eqY = 100, eqWidth = 125, eqHeight = 100\<rparr>"
  by (simp add: equipmentRect_def fl_eval)

section \<open>Facts about the file system\<close>

lemma map_of_unlinked:
  "map_of (filter (\<lambda>e. fst e \<noteq> p) files) q = (if q = p then None else map_of files q)"
  by (induction files) auto

lemma existsSync_unlinked:
  "existsSync q (filter (\<lambda>e. fst e \<noteq> p) files) \<longleftrightarrow> q \<noteq> p \<and> existsSync q files"
  by (simp add: existsSync_def map_of_unlinked)

lemma existsSync_written:
  assumes "existsSync p files"
  shows "existsSync p (writeFileSync filePath now files)"
  using assms by (simp add: existsSync_def writeFileSync_def map_of_unlinked)

lemma filter_absent:
  assumes "\<not> existsSync p files"
  shows "filter (\<lambda>e. fst e \<noteq> p) files = files"
proof -
  from assms have "p \<notin> fst ` set files"
    by (simp add: existsSync_def map_of_eq_None_iff)
  then show ?thesis by (induction files) auto
qed

section \<open>Facts about cleanupFiles and the periodic sweep\<close>

lemma cleanupFiles_no_error: "snd (cleanupFiles filePaths files) = []"
  by (induction filePaths arbitrary: files) (simp_all add: unlinkSync_def)

lemma cleanupFiles_keeps_absent:
  assumes "\<not> existsSync q files"
  shows "\<not> existsSync q (fst (cleanupFiles filePaths files))"
  using assms
  by (induction filePaths arbitrary: files) (simp_all add: unlinkSync_def existsSync_unlinked)

lemma cleanupFiles_removes:
  assumes "p \<in> set filePaths"
  shows "\<not> existsSync p (fst (cleanupFiles filePaths files))"
  using assms
proof (induction filePaths arbitrary: files)
  case Nil
  then show ?case by simp
next
  case (Cons a filePaths)
  show ?case
  proof (cases "p = a")
    case True
    have "\<not> existsSync a (filter (\<lambda>e. fst e \<noteq> a) files)"
      by (simp add: existsSync_unlinked)
    then have "\<not> existsSync a (fst (cleanupFiles filePaths (filter (\<lambda>e. fst e \<noteq> a) files)))"
      by (rule cleanupFiles_keeps_absent)
    moreover have "\<not> existsSync a files \<Longrightarrow> \<not> existsSync a (fst (cleanupFiles filePaths files))"
      by (rule cleanupFiles_keeps_absent)
    ultimately show ?thesis
      using True by (auto simp: unlinkSync_def)
  next
    case False
    with Cons show ?thesis by (simp add: unlinkSync_def)
  qed
qed

lemma cleanupFiles_absent:
  assumes "\<forall>p \<in> set filePaths. \<not> existsSync p files"
  shows "cleanupFiles filePaths files = (files, [])"
  using assms by (induction filePaths arbitrary: files) simp_all

lemma set_map_filter_iff:
  "x \<in> set (List.map_filter g xs) \<longleftrightarrow> (\<exists>e \<in> set xs. g e = Some x)"
  by (induction xs) (auto split: option.splits)

lemma strip_prefix_Some: "strip_prefix p s = Some r \<longleftrightarrow> s = p @ r"
  by (induction p s rule: strip_prefix.induct) auto

lemma readdirSync_exists:
  assumes "file \<in> set (readdirSync dir files)"
  shows "existsSync (path_join dir file) files"
proof -
  from assms obtain e where e: "e \<in> set files" "strip_prefix (dir @ ''/'') (fst e) = Some file"
    by (auto simp: readdirSync_def set_map_filter_iff)
  then have "fst e = path_join dir file"
    by (simp add: strip_prefix_Some path_join_def)
  with e(1) have "path_join dir file \<in> fst ` set files" by force
  then show ?thesis by (simp add: existsSync_def map_of_eq_None_iff)
qed

lemma readdirSync_mono:
  assumes "set files' \<subseteq> set files"
  shows "set (readdirSync dir files') \<subseteq> set (readdirSync dir files)"
  using assms by (fastforce simp: readdirSync_def set_map_filter_iff)

lemma path_join_inject: "path_join dir a = path_join dir b \<longleftrightarrow> a = b"
  by (simp add: path_join_def)

lemma sweepFile_existing:
  assumes "existsSync (path_join processedImagesDir file) files"
  shows "sweepFile now file files = (files, [])
         \<or> sweepFile now file files
             = (filter (\<lambda>e. fst e \<noteq> path_join processedImagesDir file) files, [])"
  using assms by (auto simp: sweepFile_def statSync_def unlinkSync_def existsSync_def Let_def)

lemma sweepFile_subset: "set (fst (sweepFile now file files)) \<subseteq> set files"
  by (auto simp: sweepFile_def statSync_def unlinkSync_def Let_def split: option.splits)

lemma sweepFile_map_of:
  "map_of (fst (sweepFile now file files)) q = None
   \<or> map_of (fst (sweepFile now file files)) q = map_of files q"
  by (auto simp: sweepFile_def statSync_def unlinkSync_def map_of_unlinked Let_def
      split: option.splits)

lemma sweepFile_other:
  assumes "q \<noteq> path_join processedImagesDir file"
  shows "map_of (fst (sweepFile now file files)) q = map_of files q"
  using assms
  by (auto simp: sweepFile_def statSync_def unlinkSync_def map_of_unlinked Let_def
      split: option.splits)

lemma sweepFile_fresh:
  "case map_of (fst (sweepFile now file files)) (path_join processedImagesDir file) of
     None \<Rightarrow> True | Some mtime \<Rightarrow> \<not> now - mtime > 120000"
  by (auto simp: sweepFile_def statSync_def unlinkSync_def map_of_unlinked existsSync_def
      Let_def split: option.splits)

lemma sweepFiles_no_error:
  assumes "distinct fileNames"
    and "\<forall>file \<in> set fileNames. existsSync (path_join processedImagesDir file) files"
  shows "snd (sweepFiles now fileNames files) = []"
  using assms
proof (induction fileNames arbitrary: files)
  case Nil
  then show ?case by simp
next
  case (Cons name rest)
  obtain files' errs where step: "sweepFile now name files = (files', errs)"
    by (cases "sweepFile now name files")
  from Cons.prems have ex: "existsSync (path_join processedImagesDir name) files" by simp
  from sweepFile_existing [OF ex, of now] step have errs: "errs = []" by auto
  have "\<forall>f \<in> set rest. existsSync (path_join processedImagesDir f) files'"
  proof
    fix f assume f: "f \<in> set rest"
    with Cons.prems have "f \<noteq> name" by auto
    then have "path_join processedImagesDir f \<noteq> path_join processedImagesDir name"
      by (simp add: path_join_inject)
    from sweepFile_other [OF this, of now files] step
    have "map_of files' (path_join processedImagesDir f)
            = map_of files (path_join processedImagesDir f)" by simp
    with Cons.prems f show "existsSync (path_join processedImagesDir f) files'"
      by (simp add: existsSync_def)
  qed
  with Cons.IH [of files'] Cons.prems have "snd (sweepFiles now rest files') = []" by simp
  with step errs show ?case by (simp split: prod.splits)
qed

lemma sweepFiles_subset: "set (fst (sweepFiles now fileNames files)) \<subseteq> set files"
proof (induction fileNames arbitrary: files)
  case Nil
  then show ?case by simp
next
  case (Cons name rest)
  obtain files' errs where step: "sweepFile now name files = (files', errs)"
    by (cases "sweepFile now name files")
  with sweepFile_subset [of now name files] have "set files' \<subseteq> set files" by simp
  with Cons.IH [of files'] step show ?case by (auto split: prod.splits)
qed

lemma sweepFiles_map_of:
  "map_of (fst (sweepFiles now fileNames files)) q = None
   \<or> map_of (fst (sweepFiles now fileNames files)) q = map_of files q"
proof (induction fileNames arbitrary: files)
  case Nil
  then show ?case by simp
next
  case (Cons name rest)
  obtain files' errs where step: "sweepFile now name files = (files', errs)"
    by (cases "sweepFile now name files")
  with sweepFile_map_of [of now name files q]
  have "map_of files' q = None \<or> map_of files' q = map_of files q" by simp
  with Cons.IH [of files'] step show ?case by (auto split: prod.splits)
qed

lemma sweepFiles_fresh:
  assumes "file \<in> set fileNames"
  shows "case map_of (fst (sweepFiles now fileNames files)) (path_join processedImagesDir file) of
           None \<Rightarrow> True | Some mtime \<Rightarrow> \<not> now - mtime > 120000"
  using assms
proof (induction fileNames arbitrary: files)
  case Nil
  then show ?case by simp
next
  case (Cons a rest)
  obtain files' errs where step: "sweepFile now a files = (files', errs)"
    by (cases "sweepFile now a files")
  show ?case
  proof (cases "file \<in> set rest")
    case True
    from Cons.IH [OF True, of files'] step show ?thesis by (auto split: prod.splits)
  next
    case False
    with Cons.prems have "file = a" by simp
    with sweepFile_fresh [of now a files] step
    have "case map_of files' (path_join processedImagesDir file) of
            None \<Rightarrow> True | Some mtime \<Rightarrow> \<not> now - mtime > 120000" by simp
    with sweepFiles_map_of [of now rest files' "path_join processedImagesDir file"] step
    show ?thesis by (auto split: prod.splits option.splits)
  qed
qed

lemma sweepFiles_all_fresh:
  assumes "\<forall>file \<in> set fileNames.
             \<exists>mtime. map_of files (path_join processedImagesDir file) = Some mtime
                     \<and> \<not> now - mtime > 120000"
  shows "sweepFiles now fileNames files = (files, [])"
  using assms
proof (induction fileNames)
  case Nil
  then show ?case by simp
next
  case (Cons a rest)
  then have "sweepFile now a files = (files, [])"
    by (auto simp: sweepFile_def statSync_def Let_def)
  with Cons show ?case by simp
qed

lemma periodicCleanup_no_error: "snd (periodicCleanup now files) = []"
  unfolding periodicCleanup_def
  by (rule sweepFiles_no_error) (auto simp: readdirSync_def intro: readdirSync_exists [unfolded readdirSync_def])

lemma periodicCleanup_keeps_absent:
  assumes "\<not> existsSync p files"
  shows "\<not> existsSync p (fst (periodicCleanup now files))"
  using assms sweepFiles_map_of [of now "readdirSync processedImagesDir files" files p]
  by (auto simp: periodicCleanup_def existsSync_def)

lemma periodicCleanup_twice:
  "periodicCleanup now (fst (periodicCleanup now files)) = (fst (periodicCleanup now files), [])"
proof -
  let ?names = "readdirSync processedImagesDir files"
  let ?files' = "fst (sweepFiles now ?names files)"
  have "\<forall>file \<in> set (readdirSync processedImagesDir ?files').
          \<exists>mtime. map_of ?files' (path_join processedImagesDir file) = Some mtime
                  \<and> \<not> now - mtime > 120000"
  proof
    fix name assume f: "name \<in> set (readdirSync processedImagesDir ?files')"
    then have "existsSync (path_join processedImagesDir name) ?files'"
      by (rule readdirSync_exists)
    then obtain mtime where m: "map_of ?files' (path_join processedImagesDir name) = Some mtime"
      by (auto simp: existsSync_def)
    from f readdirSync_mono [OF sweepFiles_subset, of processedImagesDir now ?names files]
    have "name \<in> set ?names" by blast
    from sweepFiles_fresh [OF this, of now files] m
    show "\<exists>mtime. map_of ?files' (path_join processedImagesDir name) = Some mtime
                  \<and> \<not> now - mtime > 120000" by simp
  qed
  then show ?thesis
    unfolding periodicCleanup_def by (rule sweepFiles_all_fresh)
qed

section \<open>Facts about getStatus\<close>

text \<open>
  The part is looked up by the very test that finds the detection, so a part that is found
  always has a matching detection: the status Not Detected always comes with confidence 0,
  and the branch \<^verbatim>\<open>part ? Math.round(part.Confidence) : 0\<close> never yields the part's
  confidence.
\<close>

lemma find_matching_detection:
  assumes "list_ex P xs"
  shows "\<exists>d. find P xs = Some d \<and> P d"
  using assms by (induction xs) auto

lemma getStatus_Detected:
  assumes "find (\<lambda>p. list_ex (\<lambda>eq. eq_Type eq = type) (part_EquipmentDetections p)) bodyParts
             = Some part"
  shows "\<exists>d. find (\<lambda>eq. eq_Type eq = type) (part_EquipmentDetections part) = Some d
           \<and> getStatus bodyParts type
               = \<lparr>status = Detected, confidence = Math_round (eq_Confidence d)\<rparr>"
proof -
  from assms have "list_ex (\<lambda>eq. eq_Type eq = type) (part_EquipmentDetections part)"
    by (auto simp: find_Some_iff)
  then obtain d where d: "find (\<lambda>eq. eq_Type eq = type) (part_EquipmentDetections part) = Some d"
    using find_matching_detection by blast
  with assms show ?thesis by (simp add: getStatus_def)
qed

lemma getStatus_no_match:
  assumes "find (\<lambda>p. list_ex (\<lambda>eq. eq_Type eq = type) (part_EquipmentDetections p)) bodyParts
             = None"
  shows "getStatus bodyParts type = \<lparr>status = NotDetected, confidence = Num 0\<rparr>"
  using assms by (simp add: getStatus_def)

lemma getStatus_NotDetected_zero:
  assumes "status (getStatus bodyParts type) = NotDetected"
  shows "confidence (getStatus bodyParts type) = Num 0"
proof (cases "find (\<lambda>p. list_ex (\<lambda>eq. eq_Type eq = type) (part_EquipmentDetections p)) bodyParts")
  case None
  then show ?thesis by (simp add: getStatus_no_match)
next
  case (Some part)
  from getStatus_Detected [OF Some] assms show ?thesis by auto
qed

section \<open>Facts about parseFloat\<close>

lemma parseFloat_undefined: "parseFloat None = NaN"
  by (simp add: parseFloat_def isWhiteSpace_def unsignedLiteral_def isDigit_def)

lemma parseFloat_abc: "parseFloat (Some ''abc'') = NaN"
  by (simp add: parseFloat_def isWhiteSpace_def unsignedLiteral_def isDigit_def)

lemma parseFloat_0: "parseFloat (Some ''0'') = Num 0"
  by (simp add: parseFloat_def isWhiteSpace_def unsignedLiteral_def isDigit_def digitsValue_def
      scale10_def exponentPart_def toDouble_def fl_eval)

lemma parseFloat_95: "parseFloat (Some ''95'') = Num 95"
  by (simp add: parseFloat_def isWhiteSpace_def unsignedLiteral_def isDigit_def digitsValue_def
      scale10_def exponentPart_def toDouble_def fl_eval)

lemma parseFloat_rounds: "parseFloat (Some ''80.00000000000000000001'') = Num 80"
  by (simp add: parseFloat_def isWhiteSpace_def unsignedLiteral_def isDigit_def digitsValue_def
      scale10_def exponentPart_def toDouble_def fl_eval)


section \<open>Facts about the per-person tasks\<close>

lemma those_map_Some: "those (map (Some \<circ> f) xs) = Some (map f xs)"
  by (induction xs) simp_all

lemma those_set:
  assumes "those slots = Some rs" and "r \<in> set rs"
  shows "Some r \<in> set slots"
  using assms
  by (induction slots arbitrary: rs) (auto split: option.splits)

lemma processPersonImage_url:
  "fst (processPersonImage env idx imagePath person metadata threshold st)
     = fst (processPersonImage env idx imagePath person metadata threshold st')"
  by (simp add: processPersonImage_def Let_def split: sum.splits)

lemma processPersonImage_keeps:
  assumes "existsSync p (snd st)"
  shows "existsSync p (snd (snd (processPersonImage env idx imagePath person metadata threshold st)))"
  using assms
  by (simp add: processPersonImage_def Let_def existsSync_written split: sum.splits)

lemma processPersonImage_failure:
  assumes "renderPerson env idx imagePath person metadata threshold = Inl e"
  shows "processPersonImage env idx imagePath person metadata threshold st = (placeholderUrl person, st)"
  using assms by (simp add: processPersonImage_def)

lemma processPersonImage_image:
  "fst (processPersonImage env idx imagePath person metadata threshold st)
     = (case renderPerson env idx imagePath person metadata threshold of
          Inl e \<Rightarrow> placeholderUrl person
        | Inr fileName \<Rightarrow> serverUrl @ ''/processed-images/'' @ fileName)"
  by (simp add: processPersonImage_def Let_def split: sum.splits)

lemma personTask_result:
  "fst (personTask env imagePath metadata threshold person idx st)
     = personResult person idx (fst (processPersonImage env idx imagePath person metadata threshold st))"
  by (simp add: personTask_def split: prod.splits)

lemma personTask_keeps:
  assumes "existsSync p (snd st)"
  shows "existsSync p (snd (snd (personTask env imagePath metadata threshold person idx st)))"
  using processPersonImage_keeps [OF assms, of env idx imagePath person metadata threshold]
  by (auto simp: personTask_def split: prod.splits)

lemma runTasks_keeps:
  assumes "existsSync p (snd st)"
  shows "existsSync p (snd (snd (runTasks env imagePath metadata threshold persons completion (slots, st))))"
  using assms
proof (induction completion arbitrary: slots st)
  case Nil
  then show ?case by simp
next
  case (Cons idx completion)
  show ?case
  proof (cases "idx < length persons")
    case True
    obtain r st' where t: "personTask env imagePath metadata threshold (persons ! idx) idx st = (r, st')"
      by (cases "personTask env imagePath metadata threshold (persons ! idx) idx st")
    with personTask_keeps [OF Cons.prems, of env imagePath metadata threshold "persons ! idx" idx]
    have "existsSync p (snd st')" by simp
    from Cons.IH [OF this] t True show ?thesis by simp
  next
    case False
    with Cons show ?thesis by simp
  qed
qed

lemma runTasks_slots:
  "fst (runTasks env imagePath metadata threshold persons completion (slots, st))
     = fold (\<lambda>i s. if i < length persons
                    then s[i := Some (personResult (persons ! i) i
                           (fst (processPersonImage env i imagePath (persons ! i) metadata threshold st0)))]
                    else s)
         completion slots"
proof (induction completion arbitrary: slots st)
  case Nil
  then show ?case by simp
next
  case (Cons idx completion)
  show ?case
  proof (cases "idx < length persons")
    case True
    obtain r st' where t: "personTask env imagePath metadata threshold (persons ! idx) idx st = (r, st')"
      by (cases "personTask env imagePath metadata threshold (persons ! idx) idx st")
    with personTask_result [of env imagePath metadata threshold "persons ! idx" idx st]
    have "r = personResult (persons ! idx) idx
                (fst (processPersonImage env idx imagePath (persons ! idx) metadata threshold st0))"
      using processPersonImage_url [of env idx imagePath "persons ! idx" metadata threshold st st0]
      by simp
    with Cons.IH [of "slots[idx := Some r]" st'] t True show ?thesis by simp
  next
    case False
    with Cons.IH [of slots st] show ?thesis by simp
  qed
qed

lemma fold_slots_length:
  "length (fold (\<lambda>i s. if i < n then s[i := f i] else s) completion slots) = length slots"
  by (induction completion arbitrary: slots) simp_all

lemma fold_slots_nth:
  assumes "i < length slots"
  shows "fold (\<lambda>j s. if j < n then s[j := f j] else s) completion slots ! i
           = (if i \<in> set completion \<and> i < n then f i else slots ! i)"
  using assms
  by (induction completion arbitrary: slots) (auto simp: nth_list_update)

lemma fold_slots_all:
  assumes "set completion = {0..<n}"
  shows "fold (\<lambda>j s. if j < n then s[j := f j] else s) completion (replicate n None)
           = map f [0..<n]"
proof (rule nth_equalityI)
  show "length (fold (\<lambda>j s. if j < n then s[j := f j] else s) completion (replicate n None))
          = length (map f [0..<n])"
    by (simp add: fold_slots_length)
next
  fix i
  assume "i < length (fold (\<lambda>j s. if j < n then s[j := f j] else s) completion (replicate n None))"
  then have i: "i < n" by (simp add: fold_slots_length)
  with assms show "fold (\<lambda>j s. if j < n then s[j := f j] else s) completion (replicate n None) ! i
          = map f [0..<n] ! i"
    by (simp add: fold_slots_nth)
qed

lemma fold_slots_members:
  assumes "Some r \<in> set (fold (\<lambda>j s. if j < n then s[j := Some (g j)] else s) completion slots)"
  shows "Some r \<in> set slots \<or> (\<exists>j. r = g j)"
  using assms
proof (induction completion arbitrary: slots)
  case Nil
  then show ?case by simp
next
  case (Cons idx completion)
  show ?case
  proof (cases "idx < n")
    case True
    with Cons.prems Cons.IH [of "slots[idx := Some (g idx)]"]
    have "Some r \<in> set (slots[idx := Some (g idx)]) \<or> (\<exists>j. r = g j)" by simp
    moreover have "set (slots[idx := Some (g idx)]) \<subseteq> insert (Some (g idx)) (set slots)"
      by (rule set_update_subset_insert)
    ultimately show ?thesis by auto
  next
    case False
    with Cons show ?thesis by simp
  qed
qed

lemma Promise_all_results:
  assumes "set (env_completion env) = {0..<length persons}"
  shows "fst (Promise_all env imagePath metadata threshold persons st)
           = Some (map (\<lambda>i. personResult (persons ! i) i
                         (fst (processPersonImage env i imagePath (persons ! i) metadata threshold st)))
                    [0..<length persons])"
proof -
  let ?f = "\<lambda>i. personResult (persons ! i) i
                    (fst (processPersonImage env i imagePath (persons ! i) metadata threshold st))"
  have "fst (runTasks env imagePath metadata threshold persons (env_completion env)
               (replicate (length persons) None, st))
          = map (\<lambda>i. Some (?f i)) [0..<length persons]"
    unfolding runTasks_slots [where ?st0.0 = st]
    using fold_slots_all [OF assms, of "\<lambda>i. Some (?f i)"] by (simp add: comp_def)
  then show ?thesis
    using those_map_Some [of ?f "[0..<length persons]"]
    by (auto simp: Promise_all_def comp_def split: prod.splits)
qed

lemma Promise_all_keeps:
  assumes "existsSync p (snd st)"
  shows "existsSync p (snd (snd (Promise_all env imagePath metadata threshold persons st)))"
  using runTasks_keeps [OF assms, of env imagePath metadata threshold persons "env_completion env"
      "replicate (length persons) None"]
  by (auto simp: Promise_all_def split: prod.splits)

lemma Promise_all_members:
  assumes "fst (Promise_all env imagePath metadata threshold persons st) = Some results"
    and "r \<in> set results"
  shows "\<exists>i url. r = personResult (persons ! i) i url"
proof -
  let ?g = "\<lambda>i. personResult (persons ! i) i
                    (fst (processPersonImage env i imagePath (persons ! i) metadata threshold st))"
  let ?slots = "fst (runTasks env imagePath metadata threshold persons (env_completion env)
                       (replicate (length persons) None, st))"
  from assms(1) have "those ?slots = Some results"
    by (auto simp: Promise_all_def split: prod.splits)
  from those_set [OF this assms(2)] have "Some r \<in> set ?slots" .
  then have "Some r \<in> set (replicate (length persons) None) \<or> (\<exists>j. r = ?g j)"
    unfolding runTasks_slots [where ?st0.0 = st] by (rule fold_slots_members)
  then show ?thesis by auto
qed

lemma personResult_hands:
  "handProtectionL (personResult person idx url) = handProtectionR (personResult person idx url)"
  by (simp add: personResult_def Let_def)

section \<open>Facts about the annotation\<close>

text \<open>
  A detection without a box draws nothing; one with a box draws exactly when its status
  is Detected or Indeterminate, with the rectangle of \<open>equipmentRect\<close>. In the example the
  head cover (confidence 90) is painted green at threshold 80 and yellow at threshold 95.
\<close>

lemma drawEquipment_cases:
  "drawEquipment imgWidth imgHeight threshold equipment =
     (case eq_BoundingBox equipment of
        None \<Rightarrow> []
      | Some box \<Rightarrow>
          (case detectionStatus (eq_Confidence equipment) threshold of
             Detected \<Rightarrow>
               [\<lparr>ann_rect = equipmentRect box imgWidth imgHeight, ann_color = ''#00FF00''\<rparr>]
           | Indeterminate \<Rightarrow>
               [\<lparr>ann_rect = equipmentRect box imgWidth imgHeight, ann_color = ''#FFFF00''\<rparr>]
           | _ \<Rightarrow> []))"
  by (simp add: drawEquipment_def Let_def split: option.splits DetectionStatus.splits)

lemma drawPerson_example:
  "drawPerson 1000 800 (Num 80) (example_persons ! 0)
     = [\<lparr>ann_rect = \<lparr>eqX = 250, eqY = 100, eqWidth = 125, eqHeight = 100\<rparr>,
         ann_color = ''#00FF00''\<rparr>]"
  "drawPerson 1000 800 (Num 95) (example_persons ! 0)
     = [\<lparr>ann_rect = \<lparr>eqX = 250, eqY = 100, eqWidth = 125, eqHeight = 100\<rparr>,
         ann_color = ''#FFFF00''\<rparr>]"
  "drawPerson 1000 800 (Num 80) (example_persons ! 1) = []"
  by (simp_all add: drawPerson_def drawEquipment_def detectionStatus_def js_ge_def js_greater_def
      example_equipmentRect example_persons_def example_bodyParts_def Let_def)

section \<open>Facts about the handler\<close>

text \<open>
  The three ways out of the handler once the upload is stored: the answer of the service
  arrives (the upload is deleted, the results are in the order of the persons), the
  service fails (the upload is deleted by the inner \<^verbatim>\<open>catch\<close>), or reading the metadata
  fails (the outer \<^verbatim>\<open>catch\<close> answers and the upload stays).
\<close>

lemma detect_success:
  assumes "req_file req = Some upload"
    and "existsSync (uf_path upload) files"
    and "env_metadata env (uf_path upload) = Some metadata"
    and "env_rekognition env (confidenceThreshold (req_body req)) = Inr data"
    and "persons = (case data of None \<Rightarrow> [] | Some ps \<Rightarrow> ps)"
    and "set (env_completion env) = {0..<length persons}"
  shows "response (detect env req files)
           = Some (Success
                (map (\<lambda>i. personResult (persons ! i) i
                       (fst (processPersonImage env i (uf_path upload) (persons ! i) metadata
      (confidenceThreshold (req_body req))
                               ([], files))))
                  [0..<length persons])
                metadata)
         \<and> \<not> existsSync (uf_path upload) (files_after (detect env req files))
         \<and> rekognitionCalls (detect env req files) = 1"
proof -
  obtain results generatedFiles files'
    where p: "Promise_all env (uf_path upload) metadata
      (confidenceThreshold (req_body req)) persons ([], files)
                = (results, generatedFiles, files')"
    by (cases "Promise_all env (uf_path upload) metadata
      (confidenceThreshold (req_body req)) persons ([], files)") auto
  from Promise_all_results [OF assms(6), of "uf_path upload" metadata
      "confidenceThreshold (req_body req)" "([], files)"] p
  have r: "results = Some (map (\<lambda>i. personResult (persons ! i) i
                       (fst (processPersonImage env i (uf_path upload) (persons ! i) metadata
      (confidenceThreshold (req_body req))
                               ([], files))))
                  [0..<length persons])"
    by simp
  from Promise_all_keeps [of "uf_path upload" "([], files)" env "uf_path upload" metadata
      "confidenceThreshold (req_body req)" persons]
    assms(2) p
  have e: "existsSync (uf_path upload) files'" by simp
  from assms(1-4) assms(5) [symmetric] p r e show ?thesis
    by (simp add: detect_def unlinkSync_def existsSync_unlinked Let_def)
qed

lemma detect_rekognition_failure:
  assumes "req_file req = Some upload"
    and "existsSync (uf_path upload) files"
    and "env_metadata env (uf_path upload) = Some metadata"
    and "env_rekognition env (confidenceThreshold (req_body req)) = Inl message"
  shows "response (detect env req files)
           = Some (Failure 500 ''Failed to process image with AWS Rekognition'')"
    and "\<not> existsSync (uf_path upload) (files_after (detect env req files))"
    and "rekognitionCalls (detect env req files) = 1"
  using assms
  by (simp_all add: detect_def innerCatch_def unlinkSync_def existsSync_unlinked Let_def)

lemma detect_metadata_failure:
  assumes "req_file req = Some upload"
    and "existsSync (uf_path upload) files"
    and "env_metadata env (uf_path upload) = None"
  shows "detect env req files = outerCatch files 0"
    and "existsSync (uf_path upload) (files_after (detect env req files))"
  using assms by (simp_all add: detect_def outerCatch_def Let_def)

lemma detect_ignores_mimetype:
  "detect env (req\<lparr>req_file := Some (upload\<lparr>uf_mimetype := declared, uf_size := n\<rparr>)\<rparr>) files
     = detect env (req\<lparr>req_file := Some upload\<rparr>) files"
  by (simp add: detect_def Let_def)

lemma detect_Success_results:
  assumes "response (detect env req files) = Some (Success results metadata)"
  shows "\<exists>imagePath persons.
           fst (Promise_all env imagePath metadata (confidenceThreshold (req_body req)) persons
                  ([], files)) = Some results"
proof -
  from assms have "\<exists>imagePath persons generatedFiles files'.
      Promise_all env imagePath metadata (confidenceThreshold (req_body req)) persons ([], files)
        = (Some results, generatedFiles, files')"
    by (auto simp: detect_def outerCatch_def innerCatch_def Let_def
        split: option.splits sum.splits prod.splits if_splits)
  then show ?thesis by (metis fst_conv)
qed

text \<open>
  Once a response is sent for a stored upload, the upload is still on disk exactly when
  reading the metadata failed.
\<close>

lemma detect_upload_kept_iff:
  assumes "req_file req = Some upload"
    and "existsSync (uf_path upload) files"
    and "response (detect env req files) \<noteq> None"
  shows "existsSync (uf_path upload) (files_after (detect env req files))
           \<longleftrightarrow> env_metadata env (uf_path upload) = None"
proof (cases "env_metadata env (uf_path upload)")
  case None
  with detect_metadata_failure(2) [OF assms(1,2) None] show ?thesis by simp
next
  case (Some metadata)
  show ?thesis
  proof (cases "env_rekognition env (confidenceThreshold (req_body req))")
    case (Inl message)
    from detect_rekognition_failure(2) [OF assms(1,2) Some Inl] Some show ?thesis by simp
  next
    case (Inr data)
    let ?persons = "case data of None \<Rightarrow> [] | Some ps \<Rightarrow> ps"
    obtain results generatedFiles files'
      where p: "Promise_all env (uf_path upload) metadata
      (confidenceThreshold (req_body req)) ?persons ([], files)
                  = (results, generatedFiles, files')"
      by (cases "Promise_all env (uf_path upload) metadata
      (confidenceThreshold (req_body req)) ?persons ([], files)") auto
    from Promise_all_keeps [of "uf_path upload" "([], files)" env "uf_path upload" metadata
        "confidenceThreshold (req_body req)" ?persons] assms(2) p
    have e: "existsSync (uf_path upload) files'" by simp
    from assms(1,2,3) Some Inr p e show ?thesis
      by (cases results) (simp_all add: detect_def unlinkSync_def existsSync_unlinked Let_def)
  qed
qed

section \<open>Facts about the client\<close>

lemma validateImageFile_valid:
  "valid (validateImageFile f)
     \<longleftrightarrow> file_type f \<in> set [''image/jpeg'', ''image/jpg'', ''image/png'']
         \<and> file_size f \<le> 10 * 1024 * 1024"
  by (simp add: validateImageFile_def Let_def)

lemma applyThreshold_status:
  "status (applyThreshold threshold item)
     = (if status item = Detected \<and> js_less (fromJSON (confidence item)) threshold
        then Indeterminate else status item)"
  by (simp add: applyThreshold_def)

lemma processDetectionResults_hands:
  assumes "r \<in> set (processDetectionResults results threshold)"
    and "\<forall>r \<in> set results. handProtectionL r = handProtectionR r"
  shows "handProtectionL r = handProtectionR r"
  using assms by (auto simp: processDetectionResults_def)

section \<open>Claims\<close>

subsection \<open>C1: status classification\<close>



subsection \<open>C2: the result of getStatus\<close>

text \<open>
  C2: when a body part exists for the region but carries no matching detection, the item
  is NotDetected with that body part's own confidence. The code returns confidence 0
  there: for a person whose only body part is a head (confidence 99) without detections,
  the hard-hat item is Not Detected with confidence 0, not 99.
\<close>

theorem getStatus_part_without_detection:
  "getStatus [\<lparr>part_Name = ''HEAD'', part_Confidence = Num 99, part_EquipmentDetections = []\<rparr>]
     ''HEAD_COVER'' = \<lparr>status = NotDetected, confidence = Num 0\<rparr>"
  by (simp add: getStatus_def)

subsection \<open>C3: the upload is deleted on every exit path\<close>

text \<open>
  C3: the uploaded file is deleted before the response on every exit path. When reading
  the image metadata fails (an upload that is no readable image), the outer \<^verbatim>\<open>catch\<close>
  answers with status 500 and the upload is still there; the service was not called.
\<close>

theorem upload_kept_when_metadata_fails:
  "response (detect (example_env\<lparr>env_metadata := (\<lambda>p. None)\<rparr>) example_request example_files)
     = Some (Failure 500 ''Error processing image'')
   \<and> existsSync ''uploads/3f2a''
        (files_after (detect (example_env\<lparr>env_metadata := (\<lambda>p. None)\<rparr>) example_request
                        example_files))
   \<and> rekognitionCalls (detect (example_env\<lparr>env_metadata := (\<lambda>p. None)\<rparr>) example_request
                          example_files) = 0"
  by (simp add: detect_def outerCatch_def example_env_def example_request_def example_upload_def
      example_files_def existsSync_def Let_def)

subsection \<open>C4: an unsupported file type is rejected before the service is called\<close>

text \<open>
  C4: an upload whose type is not a supported image type gets a validation error, with no
  call to the detection service and no artifact. The handler never reads the declared
  type: an upload declared \<^verbatim>\<open>image/gif\<close>, which the announced formats and the client's
  validator exclude, reaches the service (one call); when the service rejects it the
  answer is the service failure, and when the service answers an artifact is written.
\<close>

theorem unsupported_type_reaches_rekognition:
  "''image/gif'' \<notin> set config_supported_formats
   \<and> \<not> valid (validateImageFile \<lparr>file_type = ''image/gif'', file_size = 204800\<rparr>)
   \<and> rekognitionCalls
        (detect (example_env\<lparr>env_rekognition := (\<lambda>t. Inl ''InvalidImageFormatException'')\<rparr>)
           (example_request\<lparr>req_file := Some (example_upload\<lparr>uf_mimetype := ''image/gif''\<rparr>)\<rparr>)
           example_files) = 1
   \<and> response
        (detect (example_env\<lparr>env_rekognition := (\<lambda>t. Inl ''InvalidImageFormatException'')\<rparr>)
           (example_request\<lparr>req_file := Some (example_upload\<lparr>uf_mimetype := ''image/gif''\<rparr>)\<rparr>)
           example_files)
       = Some (Failure 500 ''Failed to process image with AWS Rekognition'')
   \<and> rekognitionCalls
        (detect example_env
           (example_request\<lparr>req_file := Some (example_upload\<lparr>uf_mimetype := ''image/gif''\<rparr>)\<rparr>)
           example_files) = 1
   \<and> deferredCleanup
        (detect example_env
           (example_request\<lparr>req_file := Some (example_upload\<lparr>uf_mimetype := ''image/gif''\<rparr>)\<rparr>)
           example_files) = Some [''processed-images/person_0_uuid0.png'']"
proof -
  have a: "rekognitionCalls
        (detect (example_env\<lparr>env_rekognition := (\<lambda>t. Inl ''InvalidImageFormatException'')\<rparr>)
           (example_request\<lparr>req_file := Some (example_upload\<lparr>uf_mimetype := ''image/gif''\<rparr>)\<rparr>)
           example_files) = 1
     \<and> response
        (detect (example_env\<lparr>env_rekognition := (\<lambda>t. Inl ''InvalidImageFormatException'')\<rparr>)
           (example_request\<lparr>req_file := Some (example_upload\<lparr>uf_mimetype := ''image/gif''\<rparr>)\<rparr>)
           example_files)
       = Some (Failure 500 ''Failed to process image with AWS Rekognition'')"
    by (simp add: detect_def innerCatch_def unlinkSync_def example_env_def example_request_def
        example_upload_def example_files_def existsSync_def Let_def)
  have b: "rekognitionCalls
        (detect example_env
           (example_request\<lparr>req_file := Some (example_upload\<lparr>uf_mimetype := ''image/gif''\<rparr>)\<rparr>)
           example_files) = 1
   \<and> deferredCleanup
        (detect example_env
           (example_request\<lparr>req_file := Some (example_upload\<lparr>uf_mimetype := ''image/gif''\<rparr>)\<rparr>)
           example_files) = Some [''processed-images/person_0_uuid0.png'']"
    by (simp add: detect_def Promise_all_def personTask_def processPersonImage_def
        renderPerson_def unlinkSync_def writeFileSync_def path_join_def processedImagesDir_def
        example_env_def example_request_def example_persons_def example_metadata_def
        example_upload_def example_files_def existsSync_def sharp_extract_def example_cropRegion
        Let_def toString_0 toString_1)
  have c: "''image/gif'' \<notin> set config_supported_formats
     \<and> \<not> valid (validateImageFile \<lparr>file_type = ''image/gif'', file_size = 204800\<rparr>)"
    by (simp add: config_supported_formats_def validateImageFile_def)
  from a b c show ?thesis by simp
qed

subsection \<open>C5: from a normalized box to pixels\<close>

text \<open>
  C5 (as stated): the pixel rectangle has a floored origin and an unfloored width and
  height. For the box (1/2, 1/2, 1/2, 1/2) in a 3 x 3 image that rectangle is
  (1, 1, 3/2, 3/2); the rectangle drawn for an equipment detection is (3/2, 3/2, 3/2, 3/2),
  with an unfloored origin, and the crop region of a person has width 1, floored. The
  products are exact in doubles at these values.
\<close>

theorem absoluteRect_counterexample:
  "equipmentRect \<lparr>Left = 1 / 2, Top = 1 / 2, Width = 1 / 2, Height = 1 / 2\<rparr> 3 3
     \<noteq> absoluteRect_spec \<lparr>Left = 1 / 2, Top = 1 / 2, Width = 1 / 2, Height = 1 / 2\<rparr> 3 3
   \<and> eqX (equipmentRect \<lparr>Left = 1 / 2, Top = 1 / 2, Width = 1 / 2, Height = 1 / 2\<rparr> 3 3) = 3 / 2
   \<and> eqX (absoluteRect_spec \<lparr>Left = 1 / 2, Top = 1 / 2, Width = 1 / 2, Height = 1 / 2\<rparr> 3 3) = 1
   \<and> cropWidth (cropRegion \<lparr>Left = 1 / 2, Top = 1 / 2, Width = 1 / 2, Height = 1 / 2\<rparr> 3 3) = 1
   \<and> eqWidth (absoluteRect_spec \<lparr>Left = 1 / 2, Top = 1 / 2, Width = 1 / 2, Height = 1 / 2\<rparr> 3 3) = 3 / 2"
  by (simp add: equipmentRect_def absoluteRect_spec_def cropRegion_def fl_eval)

text \<open>
  C5 (amended): the crop region of a person is the normalized box scaled by the image
  dimensions, each product taken in double arithmetic, with floor applied to all four
  values (origin, width and height); the rectangle drawn for an equipment detection is
  the normalized box scaled the same way, no value floored. So the crop region is the
  floor of the scaled box in every component, and the rectangle of the specification has
  the origin of the crop region and the width and height of the drawn rectangle. The
  floor is that of the rounded product: the box (0.7, 0.29, 0.5, 0.5) in a 1000 x 100
  image gives the crop region (700, 28, 500, 50) and the drawn origin (700, 28.99...).
\<close>

theorem rect_scaling:
  "cropRegion box W H =
     \<lparr>cropX = \<lfloor>js_times (Left box) (of_int W)\<rfloor>, cropY = \<lfloor>js_times (Top box) (of_int H)\<rfloor>,
      cropWidth = \<lfloor>js_times (Width box) (of_int W)\<rfloor>,
      cropHeight = \<lfloor>js_times (Height box) (of_int H)\<rfloor>\<rparr>
   \<and> equipmentRect box W H =
     \<lparr>eqX = js_times (Left box) (of_int W), eqY = js_times (Top box) (of_int H),
      eqWidth = js_times (Width box) (of_int W), eqHeight = js_times (Height box) (of_int H)\<rparr>
   \<and> cropRegion box W H =
     \<lparr>cropX = \<lfloor>eqX (equipmentRect box W H)\<rfloor>, cropY = \<lfloor>eqY (equipmentRect box W H)\<rfloor>,
      cropWidth = \<lfloor>eqWidth (equipmentRect box W H)\<rfloor>,
      cropHeight = \<lfloor>eqHeight (equipmentRect box W H)\<rfloor>\<rparr>
   \<and> eqX (absoluteRect_spec box W H) = of_int (cropX (cropRegion box W H))
   \<and> eqY (absoluteRect_spec box W H) = of_int (cropY (cropRegion box W H))
   \<and> eqWidth (absoluteRect_spec box W H) = eqWidth (equipmentRect box W H)
   \<and> eqHeight (absoluteRect_spec box W H) = eqHeight (equipmentRect box W H)
   \<and> cropRegion \<lparr>Left = 7 / 10, Top = 29 / 100, Width = 1 / 2, Height = 1 / 2\<rparr> 1000 100
       = \<lparr>cropX = 700, cropY = 28, cropWidth = 500, cropHeight = 50\<rparr>
   \<and> eqX (equipmentRect \<lparr>Left = 7 / 10, Top = 29 / 100, Width = 1 / 2, Height = 1 / 2\<rparr> 1000 100)
       = 700
   \<and> eqY (equipmentRect \<lparr>Left = 7 / 10, Top = 29 / 100, Width = 1 / 2, Height = 1 / 2\<rparr> 1000 100)
       = 8162774324609023 / 2 ^ 48"
proof -
  have general:
    "cropRegion box W H =
       \<lparr>cropX = \<lfloor>js_times (Left box) (of_int W)\<rfloor>, cropY = \<lfloor>js_times (Top box) (of_int H)\<rfloor>,
        cropWidth = \<lfloor>js_times (Width box) (of_int W)\<rfloor>,
        cropHeight = \<lfloor>js_times (Height box) (of_int H)\<rfloor>\<rparr>
     \<and> equipmentRect box W H =
       \<lparr>eqX = js_times (Left box) (of_int W), eqY = js_times (Top box) (of_int H),
        eqWidth = js_times (Width box) (of_int W), eqHeight = js_times (Height box) (of_int H)\<rparr>
     \<and> cropRegion box W H =
       \<lparr>cropX = \<lfloor>eqX (equipmentRect box W H)\<rfloor>, cropY = \<lfloor>eqY (equipmentRect box W H)\<rfloor>,
        cropWidth = \<lfloor>eqWidth (equipmentRect box W H)\<rfloor>,
        cropHeight = \<lfloor>eqHeight (equipmentRect box W H)\<rfloor>\<rparr>
     \<and> eqX (absoluteRect_spec box W H) = of_int (cropX (cropRegion box W H))
     \<and> eqY (absoluteRect_spec box W H) = of_int (cropY (cropRegion box W H))
     \<and> eqWidth (absoluteRect_spec box W H) = eqWidth (equipmentRect box W H)
     \<and> eqHeight (absoluteRect_spec box W H) = eqHeight (equipmentRect box W H)"
    by (simp add: equipmentRect_def absoluteRect_spec_def cropRegion_def)
  have rounded:
    "cropRegion \<lparr>Left = 7 / 10, Top = 29 / 100, Width = 1 / 2, Height = 1 / 2\<rparr> 1000 100
       = \<lparr>cropX = 700, cropY = 28, cropWidth = 500, cropHeight = 50\<rparr>
     \<and> eqX (equipmentRect \<lparr>Left = 7 / 10, Top = 29 / 100, Width = 1 / 2, Height = 1 / 2\<rparr> 1000 100)
         = 700
     \<and> eqY (equipmentRect \<lparr>Left = 7 / 10, Top = 29 / 100, Width = 1 / 2, Height = 1 / 2\<rparr> 1000 100)
         = 8162774324609023 / 2 ^ 48"
    by (simp add: equipmentRect_def cropRegion_def fl_eval)
  from general rounded show ?thesis by simp
qed

subsection \<open>C6: the results keep the order of the persons\<close>

text \<open>
  C6: for a request that reaches the service and gets \<open>N\<close> persons, whatever the order in
  which the per-person tasks complete (every task completing), the response carries \<open>N\<close>
  results and result \<open>i\<close> is the record of person \<open>i\<close>: its \<open>personId\<close> is \<open>i + 1\<close>, its
  confidence and bounding box are those of person \<open>i\<close>.
\<close>

theorem detect_results_index_stable:
  assumes "req_file req = Some upload"
    and "existsSync (uf_path upload) files"
    and "env_metadata env (uf_path upload) = Some metadata"
    and "env_rekognition env (confidenceThreshold (req_body req)) = Inr (Some persons)"
    and "set (env_completion env) = {0..<length persons}"
  shows "\<exists>results. response (detect env req files) = Some (Success results metadata)
           \<and> length results = length persons
           \<and> (\<forall>i < length persons.
                 personId (results ! i) = i + 1
                 \<and> personConfidence (results ! i) = Math_round (person_Confidence (persons ! i))
                 \<and> boundingBox (results ! i) = person_BoundingBox (persons ! i)
                 \<and> results ! i = personResult (persons ! i) i (image (results ! i)))"
  using detect_success [OF assms(1-4), of persons] assms(5)
  by (simp add: personResult_def Let_def)

text \<open>
  The example request: the task of person 2 completes first; the results are in the order
  of the persons.
\<close>

theorem detect_results_index_stable_witness:
  "\<exists>results. response (detect example_env example_request example_files)
                = Some (Success results example_metadata)
     \<and> length results = 2
     \<and> personId (results ! 0) = 1 \<and> personId (results ! 1) = 2
     \<and> personConfidence (results ! 0) = Num 100 \<and> personConfidence (results ! 1) = Num 85"
proof -
  have h1: "req_file example_request = Some example_upload"
    by (simp add: example_request_def)
  have h2: "existsSync (uf_path example_upload) example_files"
    by (simp add: example_upload_def example_files_def existsSync_def)
  have h3: "env_metadata example_env (uf_path example_upload) = Some example_metadata"
    by (simp add: example_env_def)
  have h4: "env_rekognition example_env (confidenceThreshold (req_body example_request))
              = Inr (Some example_persons)"
    by (simp add: example_env_def)
  have h5: "set (env_completion example_env) = {0..<length example_persons}"
    by (auto simp: example_env_def example_persons_def)
  from detect_results_index_stable [OF h1 h2 h3 h4 h5]
  obtain results where r:
    "response (detect example_env example_request example_files)
       = Some (Success results example_metadata)"
    "length results = length example_persons"
    "\<forall>i < length example_persons.
        personId (results ! i) = i + 1
        \<and> personConfidence (results ! i) = Math_round (person_Confidence (example_persons ! i))
        \<and> boundingBox (results ! i) = person_BoundingBox (example_persons ! i)
        \<and> results ! i = personResult (example_persons ! i) i (image (results ! i))"
    by blast
  have len: "length example_persons = 2" by (simp add: example_persons_def)
  from r(3) len have "personId (results ! 0) = 1 \<and> personId (results ! 1) = 2
     \<and> personConfidence (results ! 0) = Math_round (person_Confidence (example_persons ! 0))
     \<and> personConfidence (results ! 1) = Math_round (person_Confidence (example_persons ! 1))"
    by simp
  then have "personId (results ! 0) = 1 \<and> personId (results ! 1) = 2
     \<and> personConfidence (results ! 0) = Num 100 \<and> personConfidence (results ! 1) = Num 85"
    by (simp add: example_persons_def)
  with r(1,2) len show ?thesis by auto
qed

subsection \<open>C7: both hand-protection items are the same\<close>

text \<open>
  C7: the record assembled for a person has \<open>handProtectionL\<close> equal to
  \<open>handProtectionR\<close>, status and confidence; so has every result of a successful
  response, also after the client has applied its threshold.
\<close>

theorem hand_protection_identical:
  "handProtectionL (personResult person idx url) = handProtectionR (personResult person idx url)
   \<and> (response (detect env req files) = Some (Success results metadata) \<longrightarrow>
        (\<forall>r \<in> set results. handProtectionL r = handProtectionR r)
        \<and> (\<forall>r \<in> set (processDetectionResults results threshold).
              handProtectionL r = handProtectionR r))"
proof -
  have "\<forall>r \<in> set results. handProtectionL r = handProtectionR r"
    if "response (detect env req files) = Some (Success results metadata)"
  proof
    fix r assume "r \<in> set results"
    from detect_Success_results [OF that] obtain imagePath persons
      where "fst (Promise_all env imagePath metadata (confidenceThreshold (req_body req)) persons
                    ([], files)) = Some results"
      by blast
    from Promise_all_members [OF this \<open>r \<in> set results\<close>]
    obtain i u where "r = personResult (persons ! i) i u" by blast
    then show "handProtectionL r = handProtectionR r"
      by (simp add: personResult_hands)
  qed
  then show ?thesis
    using personResult_hands processDetectionResults_hands by blast
qed

text \<open>The example request: a successful response with two results.\<close>

theorem hand_protection_identical_witness:
  "response (detect example_env example_request example_files)
     = Some (Success
          [personResult (example_persons ! 0) 0
             (serverUrl @ ''/processed-images/person_0_uuid0.png''),
           personResult (example_persons ! 1) 1 (placeholderUrl (example_persons ! 1))]
          example_metadata)
   \<and> handProtectionL (personResult (example_persons ! 0) 0
         (serverUrl @ ''/processed-images/person_0_uuid0.png''))
       = handProtectionR (personResult (example_persons ! 0) 0
         (serverUrl @ ''/processed-images/person_0_uuid0.png''))"
proof -
  have h1: "req_file example_request = Some example_upload"
    by (simp add: example_request_def)
  have h2: "existsSync (uf_path example_upload) example_files"
    by (simp add: example_upload_def example_files_def existsSync_def)
  have h3: "env_metadata example_env (uf_path example_upload) = Some example_metadata"
    by (simp add: example_env_def)
  have h4: "env_rekognition example_env (confidenceThreshold (req_body example_request))
              = Inr (Some example_persons)"
    by (simp add: example_env_def)
  have h5: "example_persons = (case Some example_persons of None \<Rightarrow> [] | Some ps \<Rightarrow> ps)"
    by simp
  have h6: "set (env_completion example_env) = {0..<length example_persons}"
    by (auto simp: example_env_def example_persons_def)
  have u0: "fst (processPersonImage example_env 0 (uf_path example_upload) (example_persons ! 0)
                   example_metadata (confidenceThreshold (req_body example_request)) ([], example_files))
              = serverUrl @ ''/processed-images/person_0_uuid0.png''"
    by (simp add: processPersonImage_def renderPerson_def example_env_def example_persons_def
        example_metadata_def sharp_extract_def example_cropRegion Let_def toString_0 toString_1)
  have u1: "fst (processPersonImage example_env 1 (uf_path example_upload) (example_persons ! 1)
                   example_metadata (confidenceThreshold (req_body example_request)) ([], example_files))
              = placeholderUrl (example_persons ! 1)"
    by (simp add: processPersonImage_def renderPerson_def example_env_def example_persons_def
        example_metadata_def sharp_extract_def example_cropRegion Let_def toString_0 toString_1)
  have up: "[0..<length example_persons] = [0, 1]"
    by (simp add: example_persons_def upt_rec)
  from detect_success [OF h1 h2 h3 h4 h5 h6] u0 u1 up
  have r: "response (detect example_env example_request example_files)
     = Some (Success
          [personResult (example_persons ! 0) 0
             (serverUrl @ ''/processed-images/person_0_uuid0.png''),
           personResult (example_persons ! 1) 1 (placeholderUrl (example_persons ! 1))]
          example_metadata)"
    by simp
  from hand_protection_identical [of _ _ _ example_env example_request example_files _
      example_metadata "Num 80"] r
  show ?thesis by simp
qed

subsection \<open>C8: a person whose image cannot be produced gets a placeholder\<close>

text \<open>
  C8: when a step of the annotation or the crop of a person throws, \<^verbatim>\<open>processPersonImage\<close>
  returns the placeholder reference of that person, the URL
  \<^verbatim>\<open>/placeholder.svg?height=120&width=120&text=Person+\<close> of the server followed by the
  person's \<^verbatim>\<open>Id\<close>, and leaves the file system and the list of generated files as they
  were; the request still answers with one result per person, each image being that
  placeholder where the processing failed and the URL of the processed image where it
  succeeded. No placeholder is the URL of a processed image.
\<close>

theorem processing_failure_gives_placeholder:
  assumes "req_file req = Some upload"
    and "existsSync (uf_path upload) files"
    and "env_metadata env (uf_path upload) = Some metadata"
    and "env_rekognition env (confidenceThreshold (req_body req)) = Inr (Some persons)"
    and "set (env_completion env) = {0..<length persons}"
  shows "(\<forall>i st e. renderPerson env i (uf_path upload) (persons ! i) metadata
                      (confidenceThreshold (req_body req)) = Inl e \<longrightarrow>
            processPersonImage env i (uf_path upload) (persons ! i) metadata
              (confidenceThreshold (req_body req)) st
              = (''https://detection.gulfconsulting.com.au/placeholder.svg?height=120&width=120&text=Person+''
                   @ toString (person_Id (persons ! i)), st))
         \<and> (\<exists>results. response (detect env req files) = Some (Success results metadata)
               \<and> length results = length persons
               \<and> (\<forall>i < length persons.
                     image (results ! i)
                       = (case renderPerson env i (uf_path upload) (persons ! i) metadata
                                 (confidenceThreshold (req_body req)) of
                            Inl e \<Rightarrow>
                              ''https://detection.gulfconsulting.com.au/placeholder.svg?height=120&width=120&text=Person+''
                                @ toString (person_Id (persons ! i))
                          | Inr fileName \<Rightarrow>
                              ''https://detection.gulfconsulting.com.au/processed-images/''
                                @ fileName)))
         \<and> (\<forall>person fileName.
               placeholderUrl person
                 \<noteq> ''https://detection.gulfconsulting.com.au/processed-images/'' @ fileName)"
proof -
  let ?results = "map (\<lambda>i. personResult (persons ! i) i
                      (fst (processPersonImage env i (uf_path upload) (persons ! i) metadata
                              (confidenceThreshold (req_body req)) ([], files))))
                 [0..<length persons]"
  from detect_success [OF assms(1-4), of persons] assms(5)
  have resp: "response (detect env req files) = Some (Success ?results metadata)"
    by simp
  have len: "length ?results = length persons" by simp
  have img: "\<forall>i < length persons.
               image (?results ! i)
                 = (case renderPerson env i (uf_path upload) (persons ! i) metadata
                           (confidenceThreshold (req_body req)) of
                      Inl e \<Rightarrow>
                        ''https://detection.gulfconsulting.com.au/placeholder.svg?height=120&width=120&text=Person+''
                          @ toString (person_Id (persons ! i))
                    | Inr fileName \<Rightarrow>
                        ''https://detection.gulfconsulting.com.au/processed-images/''
                          @ fileName)"
    by (auto simp: personResult_def Let_def processPersonImage_image placeholderUrl_def
        serverUrl_def split: sum.splits)
  from resp len img
  have handler: "\<exists>results. response (detect env req files) = Some (Success results metadata)
               \<and> length results = length persons
               \<and> (\<forall>i < length persons.
                     image (results ! i)
                       = (case renderPerson env i (uf_path upload) (persons ! i) metadata
                                 (confidenceThreshold (req_body req)) of
                            Inl e \<Rightarrow>
                              ''https://detection.gulfconsulting.com.au/placeholder.svg?height=120&width=120&text=Person+''
                                @ toString (person_Id (persons ! i))
                          | Inr fileName \<Rightarrow>
                              ''https://detection.gulfconsulting.com.au/processed-images/''
                                @ fileName))"
    by blast
  have distinct_urls: "\<forall>person fileName.
               placeholderUrl person
                 \<noteq> ''https://detection.gulfconsulting.com.au/processed-images/'' @ fileName"
    by (simp add: placeholderUrl_def serverUrl_def)
  have failure: "\<forall>i st e. renderPerson env i (uf_path upload) (persons ! i) metadata
                      (confidenceThreshold (req_body req)) = Inl e \<longrightarrow>
            processPersonImage env i (uf_path upload) (persons ! i) metadata
              (confidenceThreshold (req_body req)) st
              = (''https://detection.gulfconsulting.com.au/placeholder.svg?height=120&width=120&text=Person+''
                   @ toString (person_Id (persons ! i)), st)"
    by (simp add: processPersonImage_failure placeholderUrl_def serverUrl_def)
  from failure handler distinct_urls show ?thesis by blast
qed

text \<open>
  The example request, with the extraction as sharp documents it: the region of the second
  person reaches beyond the image, its result carries the placeholder of person 1, and
  the first person keeps its processed image.
\<close>

theorem processing_failure_gives_placeholder_witness:
  "renderPerson example_env 1 (uf_path example_upload) (example_persons ! 1) example_metadata
     (confidenceThreshold (req_body example_request)) = Inl ProcessingError
   \<and> renderPerson example_env 0 (uf_path example_upload) (example_persons ! 0) example_metadata
     (confidenceThreshold (req_body example_request)) = Inr ''person_0_uuid0.png''
   \<and> (\<exists>results. response (detect example_env example_request example_files)
                    = Some (Success results example_metadata)
        \<and> length results = 2
        \<and> image (results ! 0)
            = ''https://detection.gulfconsulting.com.au/processed-images/person_0_uuid0.png''
        \<and> image (results ! 1)
            = ''https://detection.gulfconsulting.com.au/placeholder.svg?height=120&width=120&text=Person+1'')"
proof -
  have h1: "req_file example_request = Some example_upload"
    by (simp add: example_request_def)
  have h2: "existsSync (uf_path example_upload) example_files"
    by (simp add: example_upload_def example_files_def existsSync_def)
  have h3: "env_metadata example_env (uf_path example_upload) = Some example_metadata"
    by (simp add: example_env_def)
  have h4: "env_rekognition example_env (confidenceThreshold (req_body example_request))
              = Inr (Some example_persons)"
    by (simp add: example_env_def)
  have h5: "set (env_completion example_env) = {0..<length example_persons}"
    by (auto simp: example_env_def example_persons_def)
  have r0: "renderPerson example_env 0 (uf_path example_upload) (example_persons ! 0)
              example_metadata (confidenceThreshold (req_body example_request))
              = Inr ''person_0_uuid0.png''"
    by (simp add: renderPerson_def example_env_def example_persons_def
        example_metadata_def sharp_extract_def example_cropRegion Let_def toString_0)
  have r1: "renderPerson example_env 1 (uf_path example_upload) (example_persons ! 1)
              example_metadata (confidenceThreshold (req_body example_request))
              = Inl ProcessingError"
    by (simp add: renderPerson_def example_env_def example_persons_def
        example_metadata_def sharp_extract_def example_cropRegion Let_def)
  have len: "length example_persons = 2" by (simp add: example_persons_def)
  have id1: "toString (person_Id (example_persons ! 1)) = ''1''"
    using toString_1 by (simp add: example_persons_def)
  from processing_failure_gives_placeholder [OF h1 h2 h3 h4 h5]
  obtain results where r:
    "response (detect example_env example_request example_files)
       = Some (Success results example_metadata)"
    "length results = length example_persons"
    "\<forall>i < length example_persons.
        image (results ! i)
          = (case renderPerson example_env i (uf_path example_upload) (example_persons ! i)
                    example_metadata (confidenceThreshold (req_body example_request)) of
               Inl e \<Rightarrow>
                 ''https://detection.gulfconsulting.com.au/placeholder.svg?height=120&width=120&text=Person+''
                   @ toString (person_Id (example_persons ! i))
             | Inr fileName \<Rightarrow>
                 ''https://detection.gulfconsulting.com.au/processed-images/'' @ fileName)"
    by blast
  from r(3) [rule_format, of 0] len r0
  have i0: "image (results ! 0)
              = ''https://detection.gulfconsulting.com.au/processed-images/person_0_uuid0.png''"
    by simp
  from r(3) [rule_format, of 1] len r1 id1
  have i1: "image (results ! 1)
              = ''https://detection.gulfconsulting.com.au/placeholder.svg?height=120&width=120&text=Person+1''"
    by simp
  from r(1,2) len i0 i1
  have "\<exists>results. response (detect example_env example_request example_files)
                    = Some (Success results example_metadata)
        \<and> length results = 2
        \<and> image (results ! 0)
            = ''https://detection.gulfconsulting.com.au/processed-images/person_0_uuid0.png''
        \<and> image (results ! 1)
            = ''https://detection.gulfconsulting.com.au/placeholder.svg?height=120&width=120&text=Person+1''"
    by auto
  with r0 r1 show ?thesis by simp
qed

subsection \<open>C9: deleting an artifact that is already gone\<close>

text \<open>
  C9: \<^verbatim>\<open>cleanupFiles\<close> on paths whose files do not exist changes nothing and logs no error;
  it never logs an error, and running it a second time changes nothing. The periodic
  sweep never logs an error, a file that is absent stays absent, and a second sweep at the
  same time changes nothing. After a deferred cleanup and a sweep, the deferred cleanup of
  the same batch changes nothing.
\<close>

theorem cleanup_idempotent:
  "((\<forall>p \<in> set filePaths. \<not> existsSync p files) \<longrightarrow> cleanupFiles filePaths files = (files, []))
   \<and> snd (cleanupFiles filePaths files) = []
   \<and> cleanupFiles filePaths (fst (cleanupFiles filePaths files))
       = (fst (cleanupFiles filePaths files), [])
   \<and> snd (periodicCleanup now files) = []
   \<and> (\<not> existsSync p files \<longrightarrow> \<not> existsSync p (fst (periodicCleanup now files)))
   \<and> periodicCleanup now (fst (periodicCleanup now files))
       = (fst (periodicCleanup now files), [])
   \<and> cleanupFiles filePaths (fst (periodicCleanup now (fst (cleanupFiles filePaths files))))
       = (fst (periodicCleanup now (fst (cleanupFiles filePaths files))), [])"
proof -
  have twice: "cleanupFiles filePaths (fst (cleanupFiles filePaths files))
       = (fst (cleanupFiles filePaths files), [])"
    by (rule cleanupFiles_absent) (simp add: cleanupFiles_removes)
  have cross: "cleanupFiles filePaths (fst (periodicCleanup now (fst (cleanupFiles filePaths files))))
       = (fst (periodicCleanup now (fst (cleanupFiles filePaths files))), [])"
    by (rule cleanupFiles_absent)
      (simp add: cleanupFiles_removes periodicCleanup_keeps_absent)
  show ?thesis
    using twice cross
    by (simp add: cleanupFiles_absent cleanupFiles_no_error periodicCleanup_no_error
        periodicCleanup_keeps_absent periodicCleanup_twice)
qed

text \<open>
  The example file system: an artifact that is already gone is cleaned up and swept
  without a change for it and without an error.
\<close>

theorem cleanup_idempotent_witness:
  "cleanupFiles [''processed-images/person_1_gone.png''] example_files = (example_files, [])
   \<and> \<not> existsSync ''processed-images/person_1_gone.png''
         (fst (periodicCleanup 1000000 example_files))
   \<and> snd (periodicCleanup 1000000 example_files) = []"
proof -
  have h1: "\<forall>p \<in> set [''processed-images/person_1_gone.png'']. \<not> existsSync p example_files"
    by (simp add: existsSync_def example_files_def)
  have h2: "\<not> existsSync ''processed-images/person_1_gone.png'' example_files"
    by (simp add: existsSync_def example_files_def)
  from cleanup_idempotent [where filePaths = "[''processed-images/person_1_gone.png'']"
      and files = example_files and now = 1000000
      and p = "''processed-images/person_1_gone.png''"] h1 h2
  show ?thesis by simp
qed

subsection \<open>C10: the threshold a request is processed with\<close>

text \<open>
  C10: the threshold is the value of \<^verbatim>\<open>parseFloat\<close> on the field
  \<^verbatim>\<open>confidenceThreshold\<close> when that is a number other than zero, and 80 otherwise; it is
  never 0. A request without the field, with a field that is no number, with the field
  0, or with the threshold under another name, as the client sends it
  (\<^verbatim>\<open>confidence_threshold\<close>), is processed with 80.
\<close>

theorem confidenceThreshold_default:
  "confidenceThreshold body =
     (if truthy (parseFloat (body ''confidenceThreshold''))
      then parseFloat (body ''confidenceThreshold'') else Num 80)
   \<and> confidenceThreshold body \<noteq> Num 0
   \<and> confidenceThreshold body \<noteq> NaN
   \<and> confidenceThreshold (body(''confidenceThreshold'' := None)) = Num 80
   \<and> confidenceThreshold (body(''confidenceThreshold'' \<mapsto> ''abc'')) = Num 80
   \<and> confidenceThreshold (body(''confidenceThreshold'' \<mapsto> ''0'')) = Num 80
   \<and> confidenceThreshold (body(''confidenceThreshold'' \<mapsto> ''95'')) = Num 95
   \<and> confidenceThreshold (req_body (multer_single storedPath (createFormData imageFile t)))
       = Num 80"
proof -
  have a: "confidenceThreshold b \<noteq> Num 0 \<and> confidenceThreshold b \<noteq> NaN" for b
    by (cases "parseFloat (b ''confidenceThreshold'')") (simp_all add: confidenceThreshold_def)
  have b: "confidenceThreshold (req_body (multer_single storedPath (createFormData imageFile t)))
       = Num 80"
    by (simp add: confidenceThreshold_def multer_single_def createFormData_def
        parseFloat_undefined)
  show ?thesis
    using a [of body] b
    by (simp add: confidenceThreshold_def parseFloat_undefined parseFloat_abc parseFloat_0
        parseFloat_95)
qed

end
